theory Spec2Isabelle
  imports Main "HOL-Library.AList" "HOL-Library.Sublist"
begin

section \<open>The swagger authorization middleware (swagger/lib/auth-middleware.js)\<close>

text \<open>
  A shallow embedding of \<^verbatim>\<open>src/swagger/lib/auth-middleware.js\<close>. The module keeps its
  state in module variables (\<^verbatim>\<open>swagger\<close>, \<^verbatim>\<open>resourcesMap\<close>) and mutates the swagger
  document, the bundled OAuth template and the matched operation in place; the model
  passes that state explicitly and returns it updated. A \<^verbatim>\<open>throw\<close> is a value of type
  \<open>error\<close>, returned together with the state reached when it was raised.
\<close>

subsection \<open>JavaScript values\<close>

text \<open>
  The values the module inspects: \<^verbatim>\<open>undefined\<close>, \<^verbatim>\<open>null\<close>, strings and objects. An
  object is an association list in property order; \<^verbatim>\<open>obj[k] = v\<close> is \<open>AList.update\<close>
  (replace in place, or append), \<^verbatim>\<open>obj[k]\<close> is \<open>map_of\<close>.
\<close>

datatype jsval = JUndefined | JNull | JStr string | JObj "(string \<times> jsval) list"

fun truthy :: "jsval \<Rightarrow> bool" where
  "truthy JUndefined = False"
| "truthy JNull = False"
| "truthy (JStr s) = (s \<noteq> [])"
| "truthy (JObj _) = True"

text \<open>String conversion of an array element inside \<^verbatim>\<open>'' + array\<close>.\<close>

fun js_to_string :: "jsval \<Rightarrow> string" where
  "js_to_string JUndefined = []"
| "js_to_string JNull = []"
| "js_to_string (JStr s) = s"
| "js_to_string (JObj _) = ''[object Object]''"

text \<open>\<^verbatim>\<open>'' + array\<close> joins the elements with a comma.\<close>

fun js_join :: "string list \<Rightarrow> string" where
  "js_join [] = []"
| "js_join [x] = x"
| "js_join (x # y # ys) = x @ '','' @ js_join (y # ys)"

text \<open>Decimal rendering of an array index (\<^verbatim>\<open>'/' + name\<close> when \<^verbatim>\<open>name\<close> is an index).\<close>

fun decimal :: "nat \<Rightarrow> string" where
  "decimal n =
     (if n < 10 then [''0123456789'' ! n]
      else decimal (n div 10) @ [''0123456789'' ! (n mod 10)])"

declare decimal.simps [simp del]

text \<open>
  \<^verbatim>\<open>throw new Error(msg)\<close> is \<open>Error msg\<close>. \<open>TypeError p\<close> is the engine's error for
  reading the property \<open>p\<close> of \<^verbatim>\<open>undefined\<close>: the wording of its message is the
  engine's, and the property read is the one part of it that comes from the module.
\<close>

datatype error = TypeError string | Error string

text \<open>
  A string is named by an error when it occurs in what the error carries from the
  module: the message of an \<open>Error\<close>, the property of a \<open>TypeError\<close>.
\<close>

fun error_names :: "error \<Rightarrow> string \<Rightarrow> bool" where
  "error_names (TypeError p) s = sublist s p"
| "error_names (Error msg) s = sublist s msg"

subsection \<open>The swagger document and the bundled OAuth template\<close>

definition SERVICES :: "string list" where
  "SERVICES = [''x-a127-services'', ''x-volos-resources'']"

definition OAUTH_PROP :: string where
  "OAUTH_PROP = ''x-volos-oauth-service''"

text \<open>
  \<^verbatim>\<open>options.tokenPaths\<close>: the loop at line 219 reads it as an object from endpoint name
  to target path; the guard at line 199 reads \<^verbatim>\<open>.length\<close>, which only an array has.
  Both shapes are inputs.
\<close>

datatype token_paths =
    TokenPathsArray "string list"
  | TokenPathsObject "(string \<times> string) list"

record service_options =
  passwordCheck :: jsval
  tokenPaths :: "token_paths option"

record service_definition =
  provider :: string
  options :: "service_options option"

text \<open>
  A value of \<^verbatim>\<open>swagger.paths\<close>: an object of the document itself, or the template
  object \<^verbatim>\<open>oauthSwagger.paths[keyPath]\<close>, which line 221 stores by reference (line 226
  then writes the tag onto that shared object).
\<close>

datatype path_value = Own jsval | TemplateRef string

record swagger =
  x_a127_services :: "(string \<times> service_definition) list option"
  x_volos_resources :: "(string \<times> service_definition) list option"
  paths :: "(string \<times> path_value) list option"
  definitions :: "(string \<times> jsval) list option"

text \<open>
  \<^verbatim>\<open>oauthSwagger\<close>, loaded from \<^verbatim>\<open>../spec/oauth_operations.yaml\<close>. The file is not part
  of the sources at hand, so the document is a parameter: path-items (objects) keyed
  \<^verbatim>\<open>/<name>\<close>, and data-shape definitions.
\<close>

record oauth_template =
  tmpl_paths :: "(string \<times> (string \<times> jsval) list) list"
  tmpl_definitions :: "(string \<times> jsval) list"

subsection \<open>importOAuth (lines 197-232)\<close>

text \<open>\<^verbatim>\<open>paths.length === 0\<close>: true of an empty array; an object of path strings has no
  numeric \<^verbatim>\<open>length\<close>.\<close>

fun length_is_zero :: "token_paths \<Rightarrow> bool" where
  "length_is_zero (TokenPathsArray xs) = (xs = [])"
| "length_is_zero (TokenPathsObject al) = False"

text \<open>The pairs \<^verbatim>\<open>(name, path)\<close> that \<^verbatim>\<open>_.each(paths, function(path, name) ...)\<close> visits.\<close>

fun token_entries :: "token_paths \<Rightarrow> (string \<times> string) list" where
  "token_entries (TokenPathsArray xs) = zip (map decimal [0..<length xs]) xs"
| "token_entries (TokenPathsObject al) = al"

text \<open>
  Line 205: \<^verbatim>\<open>_.filter(paths, function(path) { return _.contains(allPaths, path); })\<close>.
  On an object \<^verbatim>\<open>_.contains\<close> searches the values, so a requested path is kept when some
  value of \<^verbatim>\<open>allPaths\<close> is that very string.
\<close>

definition existingPaths :: "token_paths \<Rightarrow> (string \<times> path_value) list \<Rightarrow> string list" where
  "existingPaths tp allPaths =
     filter (\<lambda>path. Own (JStr path) \<in> set (map snd allPaths)) (map snd (token_entries tp))"

text \<open>
  Lines 211-213: \<^verbatim>\<open>_.filter(allDefinitions, function(key) {...})\<close> hands the callback the
  values of \<^verbatim>\<open>allDefinitions\<close>; a value is kept when it is one of the template's
  definition names.
\<close>

definition existingDefinitions :: "oauth_template \<Rightarrow> (string \<times> jsval) list \<Rightarrow> jsval list" where
  "existingDefinitions tmpl allDefinitions =
     filter (\<lambda>v. v \<in> set (map (\<lambda>kv. JStr (fst kv)) (tmpl_definitions tmpl)))
       (map snd allDefinitions)"

text \<open>Line 223: the valid names, each template key without its first character.\<close>

definition valid_keys :: "oauth_template \<Rightarrow> string list" where
  "valid_keys tmpl = map (\<lambda>kv. drop 1 (fst kv)) (tmpl_paths tmpl)"

text \<open>
  Lines 219-227. The state is \<^verbatim>\<open>allPaths\<close> and the template document. Line 221 assigns
  before line 222 tests, so an unknown name leaves \<^verbatim>\<open>undefined\<close> at its target path.
\<close>

fun add_token_paths ::
  "string \<Rightarrow> (string \<times> string) list \<Rightarrow> (string \<times> path_value) list \<times> oauth_template
     \<Rightarrow> error option \<times> (string \<times> path_value) list \<times> oauth_template" where
  "add_token_paths resourceName [] st = (None, st)"
| "add_token_paths resourceName ((name, path) # rest) (allPaths, tmpl) =
     (let keyPath = ''/'' @ name in
      case map_of (tmpl_paths tmpl) keyPath of
        None \<Rightarrow>
          (Some (Error (''Invalid tokenPath key: '' @ name @ ''. Must be one of: ''
                        @ js_join (valid_keys tmpl))),
           AList.update path (Own JUndefined) allPaths, tmpl)
      | Some item \<Rightarrow>
          add_token_paths resourceName rest
            (AList.update path (TemplateRef keyPath) allPaths,
             tmpl\<lparr>tmpl_paths :=
               AList.update keyPath (AList.update OAUTH_PROP (JStr resourceName) item)
                 (tmpl_paths tmpl)\<rparr>))"

text \<open>Lines 230-232.\<close>

fun add_definitions :: "(string \<times> jsval) list \<Rightarrow> (string \<times> jsval) list \<Rightarrow> (string \<times> jsval) list" where
  "add_definitions [] allDefinitions = allDefinitions"
| "add_definitions ((key, val) # rest) allDefinitions =
     add_definitions rest (AList.update key val allDefinitions)"

fun importOAuth ::
  "string \<Rightarrow> token_paths \<Rightarrow> swagger \<times> oauth_template
     \<Rightarrow> error option \<times> swagger \<times> oauth_template" where
  "importOAuth resourceName tp (sw, tmpl) =
     (if length_is_zero tp then (None, sw, tmpl)
      else
        let allPaths = (case paths sw of Some ps \<Rightarrow> ps | None \<Rightarrow> []);
            allDefinitions = (case definitions sw of Some ds \<Rightarrow> ds | None \<Rightarrow> []);
            sw1 = sw\<lparr>paths := Some allPaths, definitions := Some allDefinitions\<rparr>
        in
          if existingPaths tp allPaths \<noteq> [] then
            (Some (Error (''Paths '' @ js_join (existingPaths tp allPaths)
                          @ '' already exist. Cannot insert OAuth.'')), sw1, tmpl)
          else if existingDefinitions tmpl allDefinitions \<noteq> [] then
            (Some (Error (''Definitions ''
                          @ js_join (map js_to_string (existingDefinitions tmpl allDefinitions))
                          @ '' already exist. Cannot insert OAuth.'')), sw1, tmpl)
          else
            (case add_token_paths resourceName (token_entries tp) (allPaths, tmpl) of
               (Some e, allPaths', tmpl') \<Rightarrow> (Some e, sw1\<lparr>paths := Some allPaths'\<rparr>, tmpl')
             | (None, allPaths', tmpl') \<Rightarrow>
                 (None,
                  sw1\<lparr>paths := Some allPaths',
                      definitions := Some (add_definitions (tmpl_definitions tmpl') allDefinitions)\<rparr>,
                  tmpl')))"

subsection \<open>Operations, requests and chains\<close>

record authorization =
  scope :: jsval

text \<open>
  The two annotations \<^verbatim>\<open>x-a127-authorizations\<close> (\<^verbatim>\<open>A127_AUTH\<close>) and
  \<^verbatim>\<open>x-volos-authorizations\<close> (\<^verbatim>\<open>VOLOS_AUTH\<close>), carried by a path and by an operation.
  A declaration is an object from resource name to \<^verbatim>\<open>{scope}\<close>; an object is truthy
  even when empty, so \<open>None\<close> (the property is absent) is the only falsy declaration.
\<close>

record swagger_path =
  x_a127_authorizations :: "(string \<times> authorization) list option"
  x_volos_authorizations :: "(string \<times> authorization) list option"

text \<open>
  A step of a chain. \<open>Authenticate oauth scope\<close> is the middleware returned by
  \<^verbatim>\<open>oauth.connectMiddleware().authenticate(scope)\<close>; \<open>AddResourcesToRequest rm\<close> is the
  closure of \<^verbatim>\<open>addResourcesToRequestMW()\<close> over the registry \<open>rm\<close> of that moment.
  \<^verbatim>\<open>helpers.chain(middlewares)\<close> is the list of its steps.
\<close>

datatype 'r step =
    Authenticate 'r jsval
  | AddResourcesToRequest "(string \<times> 'r) list option"

record 'r op_volos =
  authChain :: "'r step list option"

record 'r operation = swagger_path +
  operationId :: string
  volos :: "'r op_volos option"

record 'r req_swagger =
  operation :: "'r operation option"
  path :: swagger_path
  swaggerObject :: "swagger option"

text \<open>
  The request: \<^verbatim>\<open>req.swagger\<close>, \<^verbatim>\<open>req.headers.authorization\<close>, \<^verbatim>\<open>req.token\<close> and
  \<^verbatim>\<open>req.volos\<close> (\<open>Some rm\<close> once \<^verbatim>\<open>{resources: rm}\<close> is attached).
\<close>

record 'r request =
  req_swagger :: "'r req_swagger option"
  headers_authorization :: jsval
  token :: jsval
  req_volos :: "(string \<times> 'r) list option option"

datatype 'q step_result = Continue 'q | Fail jsval 'q | Respond 'q

text \<open>
  The collaborators outside the module: provider modules (\<^verbatim>\<open>require(provider).create\<close>),
  \<^verbatim>\<open>helpers.getHelperFunction\<close>, and a resource's \<^verbatim>\<open>validGrantTypes\<close>,
  \<^verbatim>\<open>verifyToken\<close> (the pair it hands its callback, assumed to be called once) and
  scope-checking middleware.
\<close>

record 'r env =
  require_provider :: "string \<Rightarrow> error + (service_options \<Rightarrow> error + 'r)"
  getHelperFunction :: "string \<Rightarrow> jsval \<Rightarrow> error + jsval"
  validGrantTypes :: "'r \<Rightarrow> jsval"
  verifyToken :: "'r \<Rightarrow> jsval \<Rightarrow> jsval \<Rightarrow> jsval \<times> jsval"
  authenticate_mw :: "'r \<Rightarrow> jsval \<Rightarrow> 'r request \<Rightarrow> 'r request step_result"

subsection \<open>ifAuthenticated (lines 133-163)\<close>

text \<open>Lines 141-144: the \<^verbatim>\<open>||\<close> chain over the four declarations.\<close>

definition authorizations_of ::
  "('r, 'a) operation_scheme \<Rightarrow> swagger_path \<Rightarrow> (string \<times> authorization) list option" where
  "authorizations_of op pth =
     (case x_a127_authorizations op of Some a \<Rightarrow> Some a
      | None \<Rightarrow>
     (case x_a127_authorizations pth of Some a \<Rightarrow> Some a
      | None \<Rightarrow>
     (case x_volos_authorizations op of Some a \<Rightarrow> Some a
      | None \<Rightarrow> x_volos_authorizations pth)))"

text \<open>
  Lines 148-152, one \<^verbatim>\<open>push\<close> per entry. On an unset registry line 149 reads the
  property \<^verbatim>\<open>name\<close> of \<^verbatim>\<open>undefined\<close>; on a missing resource line 151 reads
  \<^verbatim>\<open>connectMiddleware\<close> of \<^verbatim>\<open>undefined\<close>. Both raise the engine's TypeError.
\<close>

fun push_authenticate ::
  "(string \<times> 'r) list option \<Rightarrow> (string \<times> authorization) list \<Rightarrow> 'r step list
     \<Rightarrow> error + 'r step list" where
  "push_authenticate rm [] middlewares = Inr middlewares"
| "push_authenticate rm ((name, authorization) # rest) middlewares =
     (case rm of
        None \<Rightarrow> Inl (TypeError name)
      | Some m \<Rightarrow>
          (case map_of m name of
             None \<Rightarrow> Inl (TypeError ''connectMiddleware'')
           | Some oauth \<Rightarrow>
               push_authenticate rm rest
                 (middlewares @ [Authenticate oauth (scope authorization)])))"

text \<open>
  Section 4.4, step 2, in the spec's words: for each pair of the chosen mapping, the
  check step of the registry's resource of that name, with the requirement's scope.
\<close>

definition check_steps :: "(string \<times> 'r) list \<Rightarrow> (string \<times> authorization) list \<Rightarrow> 'r step list" where
  "check_steps m auths =
     map (\<lambda>na. Authenticate (the (map_of m (fst na))) (scope (snd na))) auths"

text \<open>
  Lines 135-160, the resolution of the chain: the result (the chain, or the error
  thrown) and the operation as it is left. \<open>rebuilt\<close> records whether lines 139-159
  ran.
\<close>

record 'r resolution =
  chain :: "error + 'r step list"
  op_after :: "'r operation"
  rebuilt :: bool

definition resolve_authChain ::
  "(string \<times> 'r) list option \<Rightarrow> swagger_path \<Rightarrow> 'r operation \<Rightarrow> 'r resolution" where
  "resolve_authChain rm pth op =
     (case (case volos op of Some v \<Rightarrow> authChain v | None \<Rightarrow> None) of
        Some cached \<Rightarrow> \<lparr>chain = Inr cached, op_after = op, rebuilt = False\<rparr>
      | None \<Rightarrow>
          (case (case authorizations_of op pth of
                   Some authorizations \<Rightarrow> push_authenticate rm authorizations []
                 | None \<Rightarrow> Inr []) of
             Inl e \<Rightarrow> \<lparr>chain = Inl e, op_after = op, rebuilt = True\<rparr>
           | Inr middlewares \<Rightarrow>
               (let built = middlewares @ [AddResourcesToRequest rm];
                    v = (case volos op of Some v \<Rightarrow> v | None \<Rightarrow> \<lparr>authChain = None\<rparr>)
                in \<lparr>chain = Inr built,
                    op_after = op\<lparr>volos := Some (v\<lparr>authChain := Some built\<rparr>)\<rparr>,
                    rebuilt = True\<rparr>)))"

text \<open>
  Modelled from the spec: \<^verbatim>\<open>helpers.chain\<close> lives in \<^verbatim>\<open>./helpers\<close>, which is not among
  the sources. Section 4.5: the steps run strictly in order; a step passes control on,
  fails (which ends the chain and surfaces the error) or produces the response itself
  (no further step runs). The second component lists the steps that ran.
\<close>

fun run_step :: "'r env \<Rightarrow> 'r step \<Rightarrow> 'r request \<Rightarrow> 'r request step_result" where
  "run_step env (Authenticate oauth sc) req = authenticate_mw env oauth sc req"
| "run_step env (AddResourcesToRequest rm) req = Continue (req\<lparr>req_volos := Some rm\<rparr>)"

fun chain_run ::
  "'r env \<Rightarrow> 'r step list \<Rightarrow> 'r request \<Rightarrow> 'r request step_result \<times> 'r step list" where
  "chain_run env [] req = (Continue req, [])"
| "chain_run env (s # ss) req =
     (case run_step env s req of
        Continue req' \<Rightarrow> (case chain_run env ss req' of (r, visited) \<Rightarrow> (r, s # visited))
      | Fail e req' \<Rightarrow> (Fail e req', [s])
      | Respond req' \<Rightarrow> (Respond req', [s]))"

text \<open>
  What a call of the middleware comes to: \<open>CallNext\<close> is \<^verbatim>\<open>next()\<close>, \<open>CallNextErr\<close> is
  a failed step surfaced, \<open>Responded\<close> a step that answered, \<open>Threw\<close> an exception
  leaving the middleware. Each carries the request as it then is.
\<close>

datatype 'r outcome =
    CallNext "'r request"
  | CallNextErr jsval "'r request"
  | Responded "'r request"
  | Threw error "'r request"

record 'r mw_result =
  outcome :: "'r outcome"
  resolved :: "'r resolution option"
  steps_run :: "'r step list"

text \<open>
  \<^verbatim>\<open>ifAuthenticated(req, res, next)\<close> for a request whose \<^verbatim>\<open>req.swagger\<close> is \<open>rs\<close> and
  whose operation is \<open>op\<close>. The operation is an object shared with the request, so the
  request carries the operation as resolution left it.
\<close>

definition ifAuthenticated ::
  "'r env \<Rightarrow> (string \<times> 'r) list option \<Rightarrow> 'r request \<Rightarrow> 'r req_swagger \<Rightarrow> 'r operation
     \<Rightarrow> 'r mw_result" where
  "ifAuthenticated env rm req rs op =
     (let r = resolve_authChain rm (path rs) op;
          req1 = req\<lparr>req_swagger := Some (rs\<lparr>operation := Some (op_after r)\<rparr>)\<rparr>
      in case chain r of
           Inl e \<Rightarrow> \<lparr>outcome = Threw e req1, resolved = Some r, steps_run = []\<rparr>
         | Inr c \<Rightarrow>
             (case chain_run env c req1 of
                (Continue req2, visited) \<Rightarrow>
                  \<lparr>outcome = CallNext req2, resolved = Some r, steps_run = visited\<rparr>
              | (Fail e req2, visited) \<Rightarrow>
                  \<lparr>outcome = CallNextErr e req2, resolved = Some r, steps_run = visited\<rparr>
              | (Respond req2, visited) \<Rightarrow>
                  \<lparr>outcome = Responded req2, resolved = Some r, steps_run = visited\<rparr>))"

subsection \<open>createResources and setSwagger (lines 125-130, 165-195)\<close>

text \<open>
  The module variables. \<^verbatim>\<open>authorizationsMap\<close> is assigned once and never read, and is
  left out. \<^verbatim>\<open>oauthSwagger\<close> is part of the state because line 226 writes on it.
\<close>

record 'r module_state =
  swagger :: "swagger option"
  resourcesMap :: "(string \<times> 'r) list option"
  oauthSwagger :: oauth_template

text \<open>\<^verbatim>\<open>swagger[serviceDefNameTuple]\<close> for the keys of \<open>SERVICES\<close>.\<close>

definition get_services :: "string \<Rightarrow> swagger \<Rightarrow> (string \<times> service_definition) list option" where
  "get_services key sw =
     (if key = ''x-a127-services'' then x_a127_services sw
      else if key = ''x-volos-resources'' then x_volos_resources sw
      else None)"

text \<open>The declaration \<open>serviceName\<close> under \<open>key\<close>, written back after line 180 changed it.\<close>

definition put_service :: "string \<Rightarrow> string \<Rightarrow> service_definition \<Rightarrow> swagger \<Rightarrow> swagger" where
  "put_service key serviceName d sw =
     (if key = ''x-a127-services'' then
        sw\<lparr>x_a127_services := map_option (AList.update serviceName d) (x_a127_services sw)\<rparr>
      else if key = ''x-volos-resources'' then
        sw\<lparr>x_volos_resources := map_option (AList.update serviceName d) (x_volos_resources sw)\<rparr>
      else sw)"

text \<open>
  Lines 171-184: load the provider, resolve \<^verbatim>\<open>passwordCheck\<close> through the helpers when
  it is set, create the service. Returns the service (or the error thrown) and the
  declaration as line 180 left it. A declaration without \<^verbatim>\<open>options\<close> fails at line 179.
\<close>

definition instantiate ::
  "'r env \<Rightarrow> string \<Rightarrow> service_definition \<Rightarrow> (error + 'r) \<times> service_definition" where
  "instantiate env serviceName serviceDefinition =
     (case require_provider env (provider serviceDefinition) of
        Inl e \<Rightarrow> (Inl e, serviceDefinition)
      | Inr create \<Rightarrow>
          (case options serviceDefinition of
             None \<Rightarrow> (Inl (TypeError ''passwordCheck''), serviceDefinition)
           | Some opts \<Rightarrow>
               (case (if truthy (passwordCheck opts)
                      then getHelperFunction env (serviceName @ '' passwordCheck'')
                             (passwordCheck opts)
                      else Inr (passwordCheck opts)) of
                  Inl e \<Rightarrow> (Inl e, serviceDefinition)
                | Inr pc \<Rightarrow>
                    (create (opts\<lparr>passwordCheck := pc\<rparr>),
                     serviceDefinition\<lparr>options := Some (opts\<lparr>passwordCheck := pc\<rparr>)\<rparr>))))"

text \<open>The body of the inner loop, lines 170-191, on the state
  \<open>(swagger, oauthSwagger, services)\<close>.\<close>

fun create_service ::
  "'r env \<Rightarrow> string \<Rightarrow> string \<Rightarrow> service_definition
     \<Rightarrow> swagger \<times> oauth_template \<times> (string \<times> 'r) list
     \<Rightarrow> error option \<times> swagger \<times> oauth_template \<times> (string \<times> 'r) list" where
  "create_service env key serviceName serviceDefinition (sw, tmpl, services) =
     (case instantiate env serviceName serviceDefinition of
        (Inl e, d) \<Rightarrow> (Some e, put_service key serviceName d sw, tmpl, services)
      | (Inr service, d) \<Rightarrow>
          (case (case options d of Some opts \<Rightarrow> tokenPaths opts | None \<Rightarrow> None) of
             None \<Rightarrow>
               (None, put_service key serviceName d sw, tmpl,
                AList.update serviceName service services)
           | Some tp \<Rightarrow>
               (case importOAuth serviceName tp (put_service key serviceName d sw, tmpl) of
                  (Some e, sw2, tmpl2) \<Rightarrow> (Some e, sw2, tmpl2, services)
                | (None, sw2, tmpl2) \<Rightarrow>
                    (None, sw2, tmpl2, AList.update serviceName service services))))"

fun each_service ::
  "'r env \<Rightarrow> string \<Rightarrow> (string \<times> service_definition) list
     \<Rightarrow> swagger \<times> oauth_template \<times> (string \<times> 'r) list
     \<Rightarrow> error option \<times> swagger \<times> oauth_template \<times> (string \<times> 'r) list" where
  "each_service env key [] st = (None, st)"
| "each_service env key ((serviceName, serviceDefinition) # rest) st =
     (case create_service env key serviceName serviceDefinition st of
        (Some e, st') \<Rightarrow> (Some e, st')
      | (None, st') \<Rightarrow> each_service env key rest st')"

fun each_key ::
  "'r env \<Rightarrow> string list \<Rightarrow> swagger \<times> oauth_template \<times> (string \<times> 'r) list
     \<Rightarrow> error option \<times> swagger \<times> oauth_template \<times> (string \<times> 'r) list" where
  "each_key env [] st = (None, st)"
| "each_key env (key # keys) st =
     (case get_services key (fst st) of
        None \<Rightarrow> each_key env keys st
      | Some decls \<Rightarrow>
          (case each_service env key decls st of
             (Some e, st') \<Rightarrow> (Some e, st')
           | (None, st') \<Rightarrow> each_key env keys st'))"

fun createResources ::
  "'r env \<Rightarrow> swagger \<times> oauth_template
     \<Rightarrow> (error + (string \<times> 'r) list) \<times> swagger \<times> oauth_template" where
  "createResources env (sw, tmpl) =
     (case each_key env SERVICES (sw, tmpl, []) of
        (Some e, sw', tmpl', services) \<Rightarrow> (Inl e, sw', tmpl')
      | (None, sw', tmpl', services) \<Rightarrow> (Inr services, sw', tmpl'))"

definition setSwagger ::
  "'r env \<Rightarrow> swagger option \<Rightarrow> 'r module_state \<Rightarrow> error option \<times> 'r module_state" where
  "setSwagger env swaggerObj g =
     (case swaggerObj of
        None \<Rightarrow> (None, g)
      | Some sw \<Rightarrow>
          (case createResources env (sw, oauthSwagger g) of
             (Inl e, sw', tmpl') \<Rightarrow> (Some e, g\<lparr>swagger := Some sw', oauthSwagger := tmpl'\<rparr>)
           | (Inr services, sw', tmpl') \<Rightarrow>
               (None, g\<lparr>swagger := Some sw', resourcesMap := Some services,
                        oauthSwagger := tmpl'\<rparr>)))"

subsection \<open>The security handlers (lines 75-112)\<close>

record security_definition =
  secdef_type :: jsval

text \<open>
  What a handler call comes to: the request as left, the argument its callback \<^verbatim>\<open>cb\<close>
  received (\<open>JUndefined\<close> for \<^verbatim>\<open>cb()\<close>), and the calls made to \<^verbatim>\<open>oauth.verifyToken\<close>
  (credential, scopes).
\<close>

record 'r handler_result =
  hr_request :: "'r request"
  cb_arg :: jsval
  verify_calls :: "(jsval \<times> jsval) list"

definition SwaggerSecurityHandler ::
  "'r env \<Rightarrow> 'r \<Rightarrow> 'r request \<Rightarrow> security_definition \<Rightarrow> jsval \<Rightarrow> 'r handler_result" where
  "SwaggerSecurityHandler env oauth request securityDefinition scopes =
     (if secdef_type securityDefinition \<noteq> JStr ''oauth2'' then
        \<lparr>hr_request = request, cb_arg = JUndefined, verify_calls = []\<rparr>
      else
        (case verifyToken env oauth (headers_authorization request) scopes of
           (err, result) \<Rightarrow>
             if truthy err then
               \<lparr>hr_request = request, cb_arg = err,
                verify_calls = [(headers_authorization request, scopes)]\<rparr>
             else
               \<lparr>hr_request = request\<lparr>token := result\<rparr>, cb_arg = JUndefined,
                verify_calls = [(headers_authorization request, scopes)]\<rparr>))"

text \<open>The handlers by name; a handler is \<open>SwaggerSecurityHandler env\<close> of its resource.\<close>

definition swaggerSecurityHandlers ::
  "'r env \<Rightarrow> (string \<times> 'r) list option \<Rightarrow> (string \<times> 'r) list" where
  "swaggerSecurityHandlers env rm =
     (case rm of
        None \<Rightarrow> []
      | Some m \<Rightarrow> filter (\<lambda>nr. truthy (validGrantTypes env (snd nr))) m)"

subsection \<open>middleware (lines 48-73)\<close>

text \<open>
  The function \<^verbatim>\<open>mwFunction\<close> on a request. A request without \<^verbatim>\<open>req.swagger\<close> or
  without \<^verbatim>\<open>req.swagger.operation\<close> goes to \<^verbatim>\<open>next()\<close> at line 59. When the module has
  no swagger document yet, the request's own is loaded (and, being the same object,
  carries the changes \<open>createResources\<close> made).
\<close>

definition mwFunction ::
  "'r env \<Rightarrow> 'r request \<Rightarrow> 'r module_state \<Rightarrow> 'r mw_result \<times> 'r module_state" where
  "mwFunction env req g =
     (case req_swagger req of
        None \<Rightarrow> (\<lparr>outcome = CallNext req, resolved = None, steps_run = []\<rparr>, g)
      | Some rs \<Rightarrow>
          (case operation rs of
             None \<Rightarrow> (\<lparr>outcome = CallNext req, resolved = None, steps_run = []\<rparr>, g)
           | Some op \<Rightarrow>
               (case swagger g of
                  Some sw \<Rightarrow> (ifAuthenticated env (resourcesMap g) req rs op, g)
                | None \<Rightarrow>
                    (case setSwagger env (swaggerObject rs) g of
                       (Some e, g') \<Rightarrow>
                         (\<lparr>outcome =
                             Threw e (req\<lparr>req_swagger := Some (rs\<lparr>swaggerObject := swagger g'\<rparr>)\<rparr>),
                           resolved = None, steps_run = []\<rparr>, g')
                     | (None, g') \<Rightarrow>
                         (ifAuthenticated env (resourcesMap g')
                            (req\<lparr>req_swagger := Some (rs\<lparr>swaggerObject := swagger g'\<rparr>)\<rparr>)
                            (rs\<lparr>swaggerObject := swagger g'\<rparr>) op, g')))))"

text \<open>
  \<^verbatim>\<open>middleware(swaggerObject, config)\<close>: loads the document and returns \<^verbatim>\<open>mwFunction\<close>
  with its two attachments, \<^verbatim>\<open>resources\<close> and \<^verbatim>\<open>swaggerSecurityHandlers\<close>.
\<close>

record 'r middleware_attachments =
  resources :: "(string \<times> 'r) list option"
  securityHandlers :: "(string \<times> 'r) list"

definition middleware ::
  "'r env \<Rightarrow> swagger option \<Rightarrow> 'r module_state
     \<Rightarrow> (error + 'r middleware_attachments) \<times> 'r module_state" where
  "middleware env swaggerObj g =
     (case setSwagger env swaggerObj g of
        (Some e, g') \<Rightarrow> (Inl e, g')
      | (None, g') \<Rightarrow>
          (Inr \<lparr>resources = resourcesMap g',
                securityHandlers = swaggerSecurityHandlers env (resourcesMap g')\<rparr>, g'))"

subsection \<open>Example documents\<close>

text \<open>A template with two flow endpoints and one data shape.\<close>

definition example_template :: oauth_template where
  "example_template =
     \<lparr>tmpl_paths = [(''/token'', [(''post'', JObj [])]), (''/authorize'', [(''get'', JObj [])])],
      tmpl_definitions = [(''TokenResponse'', JObj [(''type'', JStr ''object'')])]\<rparr>"

text \<open>A document that already has the path \<^verbatim>\<open>/accesstoken\<close> and a definition
  \<^verbatim>\<open>TokenResponse\<close> of its own.\<close>

definition example_swagger :: swagger where
  "example_swagger =
     \<lparr>x_a127_services = None, x_volos_resources = None,
      paths = Some [(''/accesstoken'', Own (JObj [(''get'', JObj [])]))],
      definitions = Some [(''TokenResponse'', JObj [(''type'', JStr ''string'')])]\<rparr>"

definition empty_swagger :: swagger where
  "empty_swagger =
     \<lparr>x_a127_services = None, x_volos_resources = None, paths = None, definitions = None\<rparr>"

text \<open>
  Collaborators for the examples: a resource is the name of its provider, every
  provider loads, and \<^verbatim>\<open>verifyToken\<close> refuses every credential.
\<close>

definition example_env :: "string env" where
  "example_env =
     \<lparr>require_provider = (\<lambda>p. Inr (\<lambda>opts. Inr p)),
      getHelperFunction = (\<lambda>label v. Inr v),
      validGrantTypes = (\<lambda>r. JObj []),
      verifyToken = (\<lambda>r credential scopes. (JStr ''invalid_token'', JUndefined)),
      authenticate_mw = (\<lambda>r sc req. Continue req)\<rparr>"

text \<open>A request that matched no operation.\<close>

definition example_request :: "string request" where
  "example_request =
     \<lparr>req_swagger = None, headers_authorization = JUndefined, token = JUndefined,
      req_volos = None\<rparr>"

text \<open>The operation \<^verbatim>\<open>createOrder\<close>, requiring scope \<^verbatim>\<open>write\<close> of resource \<^verbatim>\<open>oauth2\<close>.\<close>

definition example_operation :: "string operation" where
  "example_operation =
     \<lparr>x_a127_authorizations = Some [(''oauth2'', \<lparr>scope = JStr ''write''\<rparr>)],
      x_volos_authorizations = None,
      operationId = ''createOrder'', volos = None\<rparr>"

definition example_path :: swagger_path where
  "example_path = \<lparr>x_a127_authorizations = None, x_volos_authorizations = None\<rparr>"

text \<open>A registry of three resources.\<close>

definition example_registry :: "(string \<times> string) list" where
  "example_registry =
     [(''oauth2'', ''resource-a''), (''other'', ''resource-b''), (''legacy'', ''resource-c'')]"

text \<open>A document that declares the resource \<^verbatim>\<open>oauth2\<close> under both service keys, with
  different providers.\<close>

definition shadowing_swagger :: swagger where
  "shadowing_swagger =
     \<lparr>x_a127_services =
        Some [(''oauth2'', \<lparr>provider = ''volos-oauth-apigee'',
                           options = Some \<lparr>passwordCheck = JUndefined, tokenPaths = None\<rparr>\<rparr>)],
      x_volos_resources =
        Some [(''oauth2'', \<lparr>provider = ''volos-oauth-redis'',
                           options = Some \<lparr>passwordCheck = JUndefined, tokenPaths = None\<rparr>\<rparr>)],
      paths = None, definitions = None\<rparr>"

section \<open>Properties\<close>

subsection \<open>Chain resolution\<close>

lemma resolve_cached:
  "volos op = Some v \<Longrightarrow> authChain v = Some c \<Longrightarrow>
   resolve_authChain rm pth op = \<lparr>chain = Inr c, op_after = op, rebuilt = False\<rparr>"
  by (simp add: resolve_authChain_def)

lemma ifAuthenticated_resolved:
  "resolved (ifAuthenticated env rm req rs op) = Some (resolve_authChain rm (path rs) op)"
  by (simp add: ifAuthenticated_def Let_def split: sum.splits prod.splits step_result.splits)

text \<open>
  C1. An operation that carries a cached chain resolves to that chain, whatever the
  registry and the path are: lines 139-159 do not run and the operation is left as it
  was. After a first resolution that built a chain, a second resolution returns the
  same chain and changes nothing. At the level of the middleware, with a document
  loaded, the call leaves the module state (document and registry) as it was.
\<close>

theorem cached_chain_is_returned_unchanged:
  "(volos op = Some v \<and> authChain v = Some c \<longrightarrow>
      resolve_authChain rm pth op = \<lparr>chain = Inr c, op_after = op, rebuilt = False\<rparr>) \<and>
   (chain (resolve_authChain rm pth op) = Inr c \<longrightarrow>
      resolve_authChain rm' pth' (op_after (resolve_authChain rm pth op)) =
        \<lparr>chain = Inr c, op_after = op_after (resolve_authChain rm pth op), rebuilt = False\<rparr>) \<and>
   (volos op = Some v \<and> authChain v = Some c \<and> swagger g = Some sw
      \<and> req_swagger req = Some rs \<and> operation rs = Some op \<longrightarrow>
      snd (mwFunction env req g) = g \<and>
      resolved (fst (mwFunction env req g)) =
        Some \<lparr>chain = Inr c, op_after = op, rebuilt = False\<rparr>)"
proof (intro conjI impI)
  assume "volos op = Some v \<and> authChain v = Some c"
  then show "resolve_authChain rm pth op = \<lparr>chain = Inr c, op_after = op, rebuilt = False\<rparr>"
    by (simp add: resolve_cached)
next
  assume "chain (resolve_authChain rm pth op) = Inr c"
  then show "resolve_authChain rm' pth' (op_after (resolve_authChain rm pth op)) =
        \<lparr>chain = Inr c, op_after = op_after (resolve_authChain rm pth op), rebuilt = False\<rparr>"
    by (auto simp: resolve_authChain_def Let_def split: option.splits sum.splits)
next
  assume a: "volos op = Some v \<and> authChain v = Some c \<and> swagger g = Some sw
      \<and> req_swagger req = Some rs \<and> operation rs = Some op"
  then show "snd (mwFunction env req g) = g"
    by (simp add: mwFunction_def)
  from a show "resolved (fst (mwFunction env req g)) =
        Some \<lparr>chain = Inr c, op_after = op, rebuilt = False\<rparr>"
    by (simp add: mwFunction_def ifAuthenticated_resolved resolve_cached)
qed

theorem cached_chain_is_returned_unchanged_witness:
  "volos (example_operation\<lparr>volos := Some \<lparr>authChain = Some [AddResourcesToRequest None]\<rparr>\<rparr>)
     = Some \<lparr>authChain = Some [AddResourcesToRequest None]\<rparr>
   \<and> resolve_authChain None example_path
       (example_operation\<lparr>volos := Some \<lparr>authChain = Some [AddResourcesToRequest None]\<rparr>\<rparr>)
     = \<lparr>chain = Inr [AddResourcesToRequest None],
        op_after =
          example_operation\<lparr>volos := Some \<lparr>authChain = Some [AddResourcesToRequest None]\<rparr>\<rparr>,
        rebuilt = False\<rparr>
   \<and> chain (resolve_authChain (Some [(''oauth2'', ''res'')]) example_path example_operation)
     = Inr [Authenticate ''res'' (JStr ''write''),
            AddResourcesToRequest (Some [(''oauth2'', ''res'')])]
   \<and> resolve_authChain None example_path
        (op_after (resolve_authChain (Some [(''oauth2'', ''res'')]) example_path
                     example_operation))
     = \<lparr>chain = Inr [Authenticate ''res'' (JStr ''write''),
                     AddResourcesToRequest (Some [(''oauth2'', ''res'')])],
        op_after = op_after (resolve_authChain (Some [(''oauth2'', ''res'')]) example_path
                               example_operation),
        rebuilt = False\<rparr>"
proof -
  have built: "chain (resolve_authChain (Some [(''oauth2'', ''res'')]) example_path example_operation)
     = Inr [Authenticate ''res'' (JStr ''write''),
            AddResourcesToRequest (Some [(''oauth2'', ''res'')])]"
    by (simp add: resolve_authChain_def example_operation_def authorizations_of_def Let_def)
  have slot: "volos (example_operation\<lparr>volos := Some \<lparr>authChain = Some [AddResourcesToRequest None]\<rparr>\<rparr>)
     = Some \<lparr>authChain = Some [AddResourcesToRequest None]\<rparr>"
    by simp
  show ?thesis
    using built slot
      cached_chain_is_returned_unchanged
        [of "example_operation\<lparr>volos := Some \<lparr>authChain = Some [AddResourcesToRequest None]\<rparr>\<rparr>"
            "\<lparr>authChain = Some [AddResourcesToRequest None]\<rparr>" "[AddResourcesToRequest None]"
            None example_path]
      cached_chain_is_returned_unchanged
        [of example_operation _
            "[Authenticate ''res'' (JStr ''write''),
              AddResourcesToRequest (Some [(''oauth2'', ''res'')])]"
            "Some [(''oauth2'', ''res'')]" example_path None example_path]
    by simp
qed

lemma push_authenticate_present:
  "\<forall>na \<in> set auths. map_of m (fst na) \<noteq> None \<Longrightarrow>
   push_authenticate (Some m) auths acc = Inr (acc @ check_steps m auths)"
proof (induction auths arbitrary: acc)
  case Nil
  then show ?case by (simp add: check_steps_def)
next
  case (Cons x auths)
  obtain n au where x: "x = (n, au)" by (cases x)
  from Cons.prems x obtain oauth where oauth: "map_of m n = Some oauth" by auto
  from Cons.prems have "\<forall>na \<in> set auths. map_of m (fst na) \<noteq> None" by simp
  from Cons.IH [OF this, of "acc @ [Authenticate oauth (scope au)]"] oauth show ?case
    by (simp add: x check_steps_def)
qed

lemma resolve_builds:
  assumes "(case volos op of Some v \<Rightarrow> authChain v | None \<Rightarrow> None) = None"
      and "authorizations_of op pth = Some a"
      and "\<forall>na \<in> set a. map_of m (fst na) \<noteq> None"
    shows "chain (resolve_authChain (Some m) pth op)
             = Inr (check_steps m a @ [AddResourcesToRequest (Some m)])"
  using assms(1,2) push_authenticate_present [OF assms(3), of "[]"]
  by (simp add: resolve_authChain_def Let_def)

text \<open>
  C2. For an operation without a cached chain, the chain that resolution builds is
  made of the check steps of one mapping, followed by the step that attaches the
  registry: the mapping is the operation's \<^verbatim>\<open>x-a127-authorizations\<close> when that is
  present, else the path's \<^verbatim>\<open>x-a127-authorizations\<close>, else the operation's
  \<^verbatim>\<open>x-volos-authorizations\<close>, else the path's \<^verbatim>\<open>x-volos-authorizations\<close>; with none of
  the four the chain is the attaching step alone. A present declaration is the one used
  whatever the later ones hold, also when it is the empty mapping; only an absent one
  falls through. (The resources that the mapping names are in the registry.)
\<close>

theorem authorizations_priority_order:
  assumes "(case volos op of Some v \<Rightarrow> authChain v | None \<Rightarrow> None) = None"
      and "\<forall>na \<in> set a. map_of m (fst na) \<noteq> None"
    shows
  "(x_a127_authorizations op = Some a \<longrightarrow>
      authorizations_of op pth = Some a \<and>
      chain (resolve_authChain (Some m) pth op)
        = Inr (check_steps m a @ [AddResourcesToRequest (Some m)])) \<and>
   (x_a127_authorizations op = None \<and> x_a127_authorizations pth = Some a \<longrightarrow>
      authorizations_of op pth = Some a \<and>
      chain (resolve_authChain (Some m) pth op)
        = Inr (check_steps m a @ [AddResourcesToRequest (Some m)])) \<and>
   (x_a127_authorizations op = None \<and> x_a127_authorizations pth = None
      \<and> x_volos_authorizations op = Some a \<longrightarrow>
      authorizations_of op pth = Some a \<and>
      chain (resolve_authChain (Some m) pth op)
        = Inr (check_steps m a @ [AddResourcesToRequest (Some m)])) \<and>
   (x_a127_authorizations op = None \<and> x_a127_authorizations pth = None
      \<and> x_volos_authorizations op = None \<and> x_volos_authorizations pth = Some a \<longrightarrow>
      authorizations_of op pth = Some a \<and>
      chain (resolve_authChain (Some m) pth op)
        = Inr (check_steps m a @ [AddResourcesToRequest (Some m)])) \<and>
   (x_a127_authorizations op = None \<and> x_a127_authorizations pth = None
      \<and> x_volos_authorizations op = None \<and> x_volos_authorizations pth = None \<longrightarrow>
      authorizations_of op pth = None \<and>
      chain (resolve_authChain rm pth op) = Inr [AddResourcesToRequest rm])"
proof -
  have built: "chain (resolve_authChain (Some m) pth op)
                 = Inr (check_steps m a @ [AddResourcesToRequest (Some m)])"
    if "authorizations_of op pth = Some a"
    using resolve_builds [OF assms(1) that assms(2)] .
  have c1: "authorizations_of op pth = Some a" if "x_a127_authorizations op = Some a"
    using that by (simp add: authorizations_of_def)
  have c2: "authorizations_of op pth = Some a"
    if "x_a127_authorizations op = None \<and> x_a127_authorizations pth = Some a"
    using that by (simp add: authorizations_of_def)
  have c3: "authorizations_of op pth = Some a"
    if "x_a127_authorizations op = None \<and> x_a127_authorizations pth = None
          \<and> x_volos_authorizations op = Some a"
    using that by (simp add: authorizations_of_def)
  have c4: "authorizations_of op pth = Some a"
    if "x_a127_authorizations op = None \<and> x_a127_authorizations pth = None
          \<and> x_volos_authorizations op = None \<and> x_volos_authorizations pth = Some a"
    using that by (simp add: authorizations_of_def)
  have c5: "authorizations_of op pth = None
              \<and> chain (resolve_authChain rm pth op) = Inr [AddResourcesToRequest rm]"
    if "x_a127_authorizations op = None \<and> x_a127_authorizations pth = None
          \<and> x_volos_authorizations op = None \<and> x_volos_authorizations pth = None"
    using that assms(1) by (simp add: authorizations_of_def resolve_authChain_def Let_def)
  from built c1 c2 c3 c4 c5 show ?thesis
    by blast
qed

theorem authorizations_priority_order_witness:
  "(case volos example_operation of Some v \<Rightarrow> authChain v | None \<Rightarrow> None) = None
   \<and> chain (resolve_authChain (Some example_registry) 
        (example_path\<lparr>x_a127_authorizations := Some [(''other'', \<lparr>scope = JStr ''admin''\<rparr>)]\<rparr>)
        (example_operation\<lparr>x_a127_authorizations := Some [],
           x_volos_authorizations := Some [(''legacy'', \<lparr>scope = JStr ''read''\<rparr>)]\<rparr>))
       = Inr [AddResourcesToRequest (Some example_registry)]
   \<and> chain (resolve_authChain (Some example_registry) 
        (example_path\<lparr>x_a127_authorizations := Some [(''other'', \<lparr>scope = JStr ''admin''\<rparr>)]\<rparr>)
        (example_operation\<lparr>x_a127_authorizations := None,
           x_volos_authorizations := Some [(''legacy'', \<lparr>scope = JStr ''read''\<rparr>)]\<rparr>))
       = Inr [Authenticate ''resource-b'' (JStr ''admin''),
              AddResourcesToRequest (Some example_registry)]
   \<and> chain (resolve_authChain (Some example_registry) 
        (example_path\<lparr>x_volos_authorizations := Some [(''other'', \<lparr>scope = JStr ''admin''\<rparr>)]\<rparr>)
        (example_operation\<lparr>x_a127_authorizations := None,
           x_volos_authorizations := Some [(''legacy'', \<lparr>scope = JStr ''read''\<rparr>)]\<rparr>))
       = Inr [Authenticate ''resource-c'' (JStr ''read''),
              AddResourcesToRequest (Some example_registry)]
   \<and> chain (resolve_authChain (Some example_registry) 
        (example_path\<lparr>x_volos_authorizations := Some [(''other'', \<lparr>scope = JStr ''admin''\<rparr>)]\<rparr>)
        (example_operation\<lparr>x_a127_authorizations := None\<rparr>))
       = Inr [Authenticate ''resource-b'' (JStr ''admin''),
              AddResourcesToRequest (Some example_registry)]
   \<and> chain (resolve_authChain (Some example_registry) example_path
        (example_operation\<lparr>x_a127_authorizations := None\<rparr>))
       = Inr [AddResourcesToRequest (Some example_registry)]"
proof -
  let ?other = "[(''other'', \<lparr>scope = JStr ''admin''\<rparr>)]"
  let ?legacy = "[(''legacy'', \<lparr>scope = JStr ''read''\<rparr>)]"
  have n: "(case volos (example_operation\<lparr>x_a127_authorizations := x,
               x_volos_authorizations := y\<rparr>) of Some v \<Rightarrow> authChain v | None \<Rightarrow> None) = None"
    for x y
    by (simp add: example_operation_def)
  have n': "(case volos (example_operation\<lparr>x_a127_authorizations := x\<rparr>)
               of Some v \<Rightarrow> authChain v | None \<Rightarrow> None) = None" for x
    by (simp add: example_operation_def)
  have n0: "(case volos example_operation of Some v \<Rightarrow> authChain v | None \<Rightarrow> None) = None"
    by (simp add: example_operation_def)
  have p0: "\<forall>na \<in> set ([] :: (string \<times> authorization) list).
              map_of example_registry (fst na) \<noteq> None"
    by simp
  have p1: "\<forall>na \<in> set ?other. map_of example_registry (fst na) \<noteq> None"
    by (simp add: example_registry_def)
  have p2: "\<forall>na \<in> set ?legacy. map_of example_registry (fst na) \<noteq> None"
    by (simp add: example_registry_def)
  have s1: "check_steps example_registry ?other = [Authenticate ''resource-b'' (JStr ''admin'')]"
    by (simp add: check_steps_def example_registry_def)
  have s2: "check_steps example_registry ?legacy = [Authenticate ''resource-c'' (JStr ''read'')]"
    by (simp add: check_steps_def example_registry_def)
  have s0: "check_steps example_registry [] = ([] :: string step list)"
    by (simp add: check_steps_def)
  note t1 = authorizations_priority_order [OF n [where x = "Some []" and y = "Some ?legacy"] p0,
      where pth = "example_path\<lparr>x_a127_authorizations := Some ?other\<rparr>"]
  note t2 = authorizations_priority_order [OF n [where x = None and y = "Some ?legacy"] p1,
      where pth = "example_path\<lparr>x_a127_authorizations := Some ?other\<rparr>"]
  note t3 = authorizations_priority_order [OF n [where x = None and y = "Some ?legacy"] p2,
      where pth = "example_path\<lparr>x_volos_authorizations := Some ?other\<rparr>"]
  note t4 = authorizations_priority_order [OF n' [where x = None] p1,
      where pth = "example_path\<lparr>x_volos_authorizations := Some ?other\<rparr>"]
  note t5 = authorizations_priority_order [OF n' [where x = None] p0,
      where pth = example_path and rm = "Some example_registry"]
  from n0 t1 t2 t3 t4 t5 show ?thesis
    unfolding s0 s1 s2
    by (simp add: example_operation_def example_path_def)
qed


subsection \<open>The middleware\<close>

text \<open>
  C10. A request without swagger metadata, or whose metadata has no operation, is
  handed to \<^verbatim>\<open>next()\<close> as it is: no chain is resolved, no step runs, and the module
  state is untouched, whatever the collaborators \<open>env\<close> would do.
\<close>

theorem mwFunction_without_operation_calls_next:
  "req_swagger req = None \<or> (\<exists>rs. req_swagger req = Some rs \<and> operation rs = None) \<Longrightarrow>
   mwFunction env req g = (\<lparr>outcome = CallNext req, resolved = None, steps_run = []\<rparr>, g)"
  by (auto simp: mwFunction_def)

theorem mwFunction_without_operation_calls_next_witness:
  "req_swagger example_request = None \<and>
   mwFunction example_env example_request
     \<lparr>swagger = None, resourcesMap = None, oauthSwagger = example_template\<rparr> =
   (\<lparr>outcome = CallNext example_request, resolved = None, steps_run = []\<rparr>,
    \<lparr>swagger = None, resourcesMap = None, oauthSwagger = example_template\<rparr>)"
proof -
  have h: "req_swagger example_request = None"
    by (simp add: example_request_def)
  then have "req_swagger example_request = None
      \<or> (\<exists>rs. req_swagger example_request = Some rs \<and> operation rs = None)"
    by simp
  from h mwFunction_without_operation_calls_next [OF this] show ?thesis
    by simp
qed

subsection \<open>The security handler\<close>

text \<open>
  C8, at a declaration of type \<^verbatim>\<open>apiKey\<close>: the handler does not consult
  \<^verbatim>\<open>verifyToken\<close>, and it calls \<^verbatim>\<open>cb()\<close> without an error (line 93), which is what it
  does after a successful verification. With the same request and the type
  \<^verbatim>\<open>oauth2\<close>, the resource refuses and the callback receives the error.
\<close>

theorem SwaggerSecurityHandler_wrong_type_calls_back_without_error:
  "SwaggerSecurityHandler example_env ''oauth2'' example_request
     \<lparr>secdef_type = JStr ''apiKey''\<rparr> (JStr ''write'') =
   \<lparr>hr_request = example_request, cb_arg = JUndefined, verify_calls = []\<rparr>
   \<and> cb_arg (SwaggerSecurityHandler example_env ''oauth2'' example_request
        \<lparr>secdef_type = JStr ''oauth2''\<rparr> (JStr ''write'')) = JStr ''invalid_token''"
  by (simp add: SwaggerSecurityHandler_def example_env_def example_request_def)

text \<open>The rest of the handler: with the type \<^verbatim>\<open>oauth2\<close> it calls \<^verbatim>\<open>verifyToken\<close> once,
  with the request's credential and the scopes; an error goes to the callback, a result
  is stored as \<^verbatim>\<open>request.token\<close> before \<^verbatim>\<open>cb()\<close>.\<close>

lemma SwaggerSecurityHandler_oauth2:
  "secdef_type sd = JStr ''oauth2'' \<Longrightarrow>
   verifyToken env oauth (headers_authorization request) scopes = (err, result) \<Longrightarrow>
   SwaggerSecurityHandler env oauth request sd scopes =
     (if truthy err
      then \<lparr>hr_request = request, cb_arg = err,
            verify_calls = [(headers_authorization request, scopes)]\<rparr>
      else \<lparr>hr_request = request\<lparr>token := result\<rparr>, cb_arg = JUndefined,
            verify_calls = [(headers_authorization request, scopes)]\<rparr>)"
  by (simp add: SwaggerSecurityHandler_def)

subsection \<open>Flow-endpoint injection\<close>

text \<open>
  C3, at a document that already has the path \<^verbatim>\<open>/accesstoken\<close> and the definition
  \<^verbatim>\<open>TokenResponse\<close>: injecting the endpoint \<^verbatim>\<open>token\<close> at \<^verbatim>\<open>/accesstoken\<close> raises no
  error; the path now holds the template's item and the definition is the template's.
  The checks of lines 205 and 211 compare the values of the two objects, not their keys.
\<close>

theorem importOAuth_overwrites_colliding_path_and_definition:
  "importOAuth ''oauth2'' (TokenPathsObject [(''token'', ''/accesstoken'')])
     (example_swagger, example_template) =
   (None,
    \<lparr>x_a127_services = None, x_volos_resources = None,
     paths = Some [(''/accesstoken'', TemplateRef ''/token'')],
     definitions = Some [(''TokenResponse'', JObj [(''type'', JStr ''object'')])]\<rparr>,
    \<lparr>tmpl_paths =
       [(''/token'', [(''post'', JObj []), (''x-volos-oauth-service'', JStr ''oauth2'')]),
        (''/authorize'', [(''get'', JObj [])])],
     tmpl_definitions = [(''TokenResponse'', JObj [(''type'', JStr ''object'')])]\<rparr>)"
  by (simp add: example_swagger_def example_template_def existingPaths_def
      existingDefinitions_def OAUTH_PROP_def Let_def)

text \<open>
  C9, at the empty object: the guard of line 199 does not fire (an object has no
  \<^verbatim>\<open>length\<close>), and the template's definitions are copied into a document that had
  none. No error is raised.
\<close>

theorem importOAuth_empty_object_copies_definitions:
  "importOAuth ''oauth2'' (TokenPathsObject []) (empty_swagger, example_template) =
   (None,
    \<lparr>x_a127_services = None, x_volos_resources = None, paths = Some [],
     definitions = Some [(''TokenResponse'', JObj [(''type'', JStr ''object'')])]\<rparr>,
    example_template)"
  by (simp add: empty_swagger_def example_template_def existingPaths_def
      existingDefinitions_def Let_def)

text \<open>With the empty array the guard fires and nothing changes.\<close>

lemma importOAuth_empty_array:
  "importOAuth resourceName (TokenPathsArray []) (sw, tmpl) = (None, sw, tmpl)"
  by simp

subsection \<open>The loop of lines 219-227\<close>

lemma add_token_paths_append:
  "add_token_paths rn (xs @ ys) st =
     (case add_token_paths rn xs st of
        (Some e, st') \<Rightarrow> (Some e, st')
      | (None, st') \<Rightarrow> add_token_paths rn ys st')"
proof (induction xs arbitrary: st)
  case Nil
  then show ?case by simp
next
  case (Cons x xs)
  obtain name target where x: "x = (name, target)" by (cases x)
  obtain ps t where st: "st = (ps, t)" by (cases st)
  show ?case
    by (simp add: x st Let_def Cons.IH split: option.splits)
qed

lemma update_present_keys:
  "map_of al k \<noteq> None \<Longrightarrow> map fst (AList.update k w al) = map fst al"
  by (simp add: update_keys map_of_eq_None_iff)

lemma add_token_paths_keys:
  "add_token_paths rn es (ps, t) = (r, ps', t') \<Longrightarrow>
   map fst (tmpl_paths t') = map fst (tmpl_paths t) \<and> tmpl_definitions t' = tmpl_definitions t"
proof (induction es arbitrary: ps t)
  case Nil
  then show ?case by simp
next
  case (Cons x es)
  obtain name target where x: "x = (name, target)" by (cases x)
  show ?case
  proof (cases "map_of (tmpl_paths t) (CHR ''/'' # name)")
    case None
    with Cons.prems show ?thesis by (simp add: x)
  next
    case (Some item)
    with Cons.prems have
      "add_token_paths rn es
         (AList.update target (TemplateRef (CHR ''/'' # name)) ps,
          t\<lparr>tmpl_paths := AList.update (CHR ''/'' # name)
               (AList.update OAUTH_PROP (JStr rn) item) (tmpl_paths t)\<rparr>) = (r, ps', t')"
      by (simp add: x Let_def)
    from Cons.IH [OF this] Some show ?thesis
      by (simp add: update_present_keys)
  qed
qed

lemma valid_keys_cong:
  assumes "map fst (tmpl_paths t') = map fst (tmpl_paths t)"
  shows "valid_keys t' = valid_keys t"
proof -
  have e: "valid_keys u = map (drop 1) (map fst (tmpl_paths u))" for u
    unfolding valid_keys_def map_map comp_def ..
  show ?thesis
    unfolding e assms ..
qed

lemma known_cong:
  assumes "map fst al' = map fst al"
  shows "(map_of al' k = None) = (map_of al k = None)"
proof -
  from assms have "set (map fst al') = set (map fst al)" by simp
  then have "fst ` set al' = fst ` set al" by simp
  then show ?thesis by (simp add: map_of_eq_None_iff)
qed

lemma add_token_paths_known:
  "\<forall>np \<in> set es. map_of (tmpl_paths t) (CHR ''/'' # fst np) \<noteq> None \<Longrightarrow>
   \<exists>ps' t'. add_token_paths rn es (ps, t) = (None, ps', t')"
proof (induction es arbitrary: ps t)
  case Nil
  then show ?case by simp
next
  case (Cons x es)
  obtain name target where x: "x = (name, target)" by (cases x)
  from Cons.prems x obtain item where item: "map_of (tmpl_paths t) (CHR ''/'' # name) = Some item"
    by auto
  let ?t1 = "t\<lparr>tmpl_paths := AList.update (CHR ''/'' # name)
               (AList.update OAUTH_PROP (JStr rn) item) (tmpl_paths t)\<rparr>"
  have keys: "map fst (tmpl_paths ?t1) = map fst (tmpl_paths t)"
    using item by (simp add: update_present_keys)
  have "\<forall>np \<in> set es. map_of (tmpl_paths ?t1) (CHR ''/'' # fst np) \<noteq> None"
  proof
    fix np assume "np \<in> set es"
    with Cons.prems have "map_of (tmpl_paths t) (CHR ''/'' # fst np) \<noteq> None" by simp
    then show "map_of (tmpl_paths ?t1) (CHR ''/'' # fst np) \<noteq> None"
      unfolding known_cong [OF keys] .
  qed
  from Cons.IH [OF this, of "AList.update target (TemplateRef (CHR ''/'' # name)) ps"] item
  show ?case
    by (simp add: x Let_def)
qed


lemma add_token_paths_unknown:
  assumes "\<forall>np \<in> set pre. map_of (tmpl_paths t) (CHR ''/'' # fst np) \<noteq> None"
      and "map_of (tmpl_paths t) (CHR ''/'' # name) = None"
    shows "\<exists>ps' t'. add_token_paths rn (pre @ (name, target) # post) (ps, t) =
             (Some (Error (''Invalid tokenPath key: '' @ name @ ''. Must be one of: ''
                          @ js_join (valid_keys t))), ps', t')"
proof -
  from add_token_paths_known [OF assms(1)] obtain ps1 t1
    where pre: "add_token_paths rn pre (ps, t) = (None, ps1, t1)" by blast
  from add_token_paths_keys [OF pre]
  have keys: "map fst (tmpl_paths t1) = map fst (tmpl_paths t)" by simp
  from assms(2) have "map_of (tmpl_paths t1) (CHR ''/'' # name) = None"
    unfolding known_cong [OF keys] .
  then show ?thesis
    by (simp add: add_token_paths_append pre valid_keys_cong [OF keys])
qed

lemma length_is_zero_entries: "length_is_zero tp \<Longrightarrow> token_entries tp = []"
  by (cases tp) auto

text \<open>
  C4, as the code has it. When the first requested name without a template is reached
  (the names before it have one) and no collision was reported, the injection stops with
  the error of line 224, which names the key and lists every valid name; the entries
  of \<^verbatim>\<open>swagger.definitions\<close> are then what they were, since line 230 has not run.
  Nothing is said of \<^verbatim>\<open>swagger.paths\<close>: the endpoints before the unknown one are in
  place by then.
\<close>

theorem unknown_endpoint_raises:
  assumes "token_entries tp = pre @ (name, target) # post"
      and "\<forall>np \<in> set pre. map_of (tmpl_paths tmpl) (''/'' @ fst np) \<noteq> None"
      and "map_of (tmpl_paths tmpl) (''/'' @ name) = None"
      and "existingPaths tp (case paths sw of Some ps \<Rightarrow> ps | None \<Rightarrow> []) = []"
      and "existingDefinitions tmpl (case definitions sw of Some ds \<Rightarrow> ds | None \<Rightarrow> []) = []"
    shows "fst (importOAuth rn tp (sw, tmpl)) =
             Some (Error (''Invalid tokenPath key: '' @ name @ ''. Must be one of: ''
                          @ js_join (valid_keys tmpl)))
         \<and> definitions (fst (snd (importOAuth rn tp (sw, tmpl)))) =
             Some (case definitions sw of Some ds \<Rightarrow> ds | None \<Rightarrow> [])"
proof -
  from assms(1) have nz: "\<not> length_is_zero tp"
    using length_is_zero_entries [of tp] by auto
  let ?ps = "case paths sw of Some ps \<Rightarrow> ps | None \<Rightarrow> []"
  from assms(2) have known: "\<forall>np \<in> set pre. map_of (tmpl_paths tmpl) (CHR ''/'' # fst np) \<noteq> None"
    by simp
  from assms(3) have unknown: "map_of (tmpl_paths tmpl) (CHR ''/'' # name) = None"
    by simp
  from add_token_paths_unknown [OF known unknown, of rn target post ?ps]
  obtain ps' t' where
    "add_token_paths rn (token_entries tp) (?ps, tmpl) =
       (Some (Error (''Invalid tokenPath key: '' @ name @ ''. Must be one of: ''
                          @ js_join (valid_keys tmpl))), ps', t')"
    unfolding assms(1) by blast
  with nz assms(4,5) show ?thesis
    by (simp add: Let_def)
qed

theorem unknown_endpoint_raises_witness:
  "token_entries (TokenPathsObject [(''token'', ''/t''), (''bogus'', ''/b'')])
     = [(''token'', ''/t'')] @ (''bogus'', ''/b'') # []
   \<and> map_of (tmpl_paths example_template) (''/'' @ ''bogus'') = None
   \<and> fst (importOAuth ''oauth2'' (TokenPathsObject [(''token'', ''/t''), (''bogus'', ''/b'')])
            (example_swagger, example_template))
     = Some (Error ''Invalid tokenPath key: bogus. Must be one of: token,authorize'')
   \<and> definitions (fst (snd (importOAuth ''oauth2''
            (TokenPathsObject [(''token'', ''/t''), (''bogus'', ''/b'')])
            (example_swagger, example_template))))
     = Some [(''TokenResponse'', JObj [(''type'', JStr ''string'')])]"
proof -
  have h1: "token_entries (TokenPathsObject [(''token'', ''/t''), (''bogus'', ''/b'')])
     = [(''token'', ''/t'')] @ (''bogus'', ''/b'') # []" by simp
  have h2: "\<forall>np \<in> set [(''token'', ''/t'')].
              map_of (tmpl_paths example_template) (''/'' @ fst np) \<noteq> None"
    by (simp add: example_template_def)
  have h3: "map_of (tmpl_paths example_template) (''/'' @ ''bogus'') = None"
    by (simp add: example_template_def)
  have h4: "existingPaths (TokenPathsObject [(''token'', ''/t''), (''bogus'', ''/b'')])
              (case paths example_swagger of Some ps \<Rightarrow> ps | None \<Rightarrow> []) = []"
    by (simp add: existingPaths_def example_swagger_def)
  have h5: "existingDefinitions example_template
              (case definitions example_swagger of Some ds \<Rightarrow> ds | None \<Rightarrow> []) = []"
    by (simp add: existingDefinitions_def example_swagger_def example_template_def)
  have vk: "js_join (valid_keys example_template) = ''token,authorize''"
    by (simp add: valid_keys_def example_template_def)
  have ds: "definitions example_swagger = Some [(''TokenResponse'', JObj [(''type'', JStr ''string'')])]"
    by (simp add: example_swagger_def)
  from unknown_endpoint_raises [OF h1 h2 h3 h4 h5, of "''oauth2''"] h1 h3 show ?thesis
    unfolding vk ds by simp
qed

text \<open>
  C4 as stated fails: with the endpoints \<^verbatim>\<open>token\<close> and \<^verbatim>\<open>bogus\<close> requested in that
  order, the error for \<^verbatim>\<open>bogus\<close> is raised after \<^verbatim>\<open>/t\<close> was injected, and
  \<^verbatim>\<open>swagger.paths\<close> is not what it was.
\<close>

theorem unknown_endpoint_leaves_partial_injection:
  "fst (importOAuth ''oauth2'' (TokenPathsObject [(''token'', ''/t''), (''bogus'', ''/b'')])
          (example_swagger, example_template))
     = Some (Error ''Invalid tokenPath key: bogus. Must be one of: token,authorize'')
   \<and> paths (fst (snd (importOAuth ''oauth2''
          (TokenPathsObject [(''token'', ''/t''), (''bogus'', ''/b'')])
          (example_swagger, example_template))))
     = Some [(''/accesstoken'', Own (JObj [(''get'', JObj [])])),
             (''/t'', TemplateRef ''/token''), (''/b'', Own JUndefined)]
   \<and> paths (fst (snd (importOAuth ''oauth2''
          (TokenPathsObject [(''token'', ''/t''), (''bogus'', ''/b'')])
          (example_swagger, example_template))))
     \<noteq> paths example_swagger"
  by (simp add: example_swagger_def example_template_def existingPaths_def
      existingDefinitions_def OAUTH_PROP_def valid_keys_def Let_def)

subsection \<open>A resource missing from the registry\<close>

lemma push_authenticate_missing:
  "\<exists>na \<in> set auths. map_of m (fst na) = None \<Longrightarrow>
   push_authenticate (Some m) auths acc = Inl (TypeError ''connectMiddleware'')"
proof (induction auths arbitrary: acc)
  case Nil
  then show ?case by simp
next
  case (Cons x auths)
  obtain n au where x: "x = (n, au)" by (cases x)
  show ?case
  proof (cases "map_of m n")
    case None
    then show ?thesis by (simp add: x)
  next
    case (Some oauth)
    with Cons.prems x have "\<exists>na \<in> set auths. map_of m (fst na) = None" by auto
    from Cons.IH [OF this] Some show ?thesis
      by (simp add: x)
  qed
qed

lemma resolve_missing:
  assumes "(case volos op of Some v \<Rightarrow> authChain v | None \<Rightarrow> None) = None"
      and "authorizations_of op pth = Some auths"
      and "\<exists>na \<in> set auths. map_of m (fst na) = None"
    shows "resolve_authChain (Some m) pth op =
             \<lparr>chain = Inl (TypeError ''connectMiddleware''), op_after = op, rebuilt = True\<rparr>"
  using assms(1,2) push_authenticate_missing [OF assms(3), of "[]"]
  by (simp add: resolve_authChain_def)

lemma setSwagger_loaded:
  "setSwagger env (Some sw) g0 = (None, g) \<Longrightarrow> swagger g \<noteq> None \<and> resourcesMap g \<noteq> None"
  by (auto simp: setSwagger_def split: prod.splits sum.splits)

text \<open>
  C7, as the code has it. Take an operation without a cached chain whose chosen
  requirements name a resource that the built registry lacks. Its first resolution
  fails with the engine's TypeError for reading \<^verbatim>\<open>connectMiddleware\<close> of
  \<^verbatim>\<open>undefined\<close> (line 151), and nothing is stored on the operation. The load of the
  document has completed without error before that: on the module state it left, the
  middleware throws that error for a request to the operation, runs no step, and
  leaves the request and the module state as they were. When no registry was built at
  all, the error is the TypeError for reading the first required resource's name of
  \<^verbatim>\<open>undefined\<close> (line 149).
\<close>

theorem missing_resource_raises_TypeError:
  assumes "(case volos op of Some v \<Rightarrow> authChain v | None \<Rightarrow> None) = None"
      and "authorizations_of op pth = Some auths"
    shows
  "((\<exists>na \<in> set auths. map_of m (fst na) = None) \<longrightarrow>
      resolve_authChain (Some m) pth op =
        \<lparr>chain = Inl (TypeError ''connectMiddleware''), op_after = op, rebuilt = True\<rparr>
      \<and> (setSwagger env (Some sw) g0 = (None, g) \<and> resourcesMap g = Some m
           \<and> req_swagger req = Some rs \<and> operation rs = Some op \<and> path rs = pth \<longrightarrow>
         mwFunction env req g =
           (\<lparr>outcome = Threw (TypeError ''connectMiddleware'') req,
             resolved = Some \<lparr>chain = Inl (TypeError ''connectMiddleware''), op_after = op,
                               rebuilt = True\<rparr>,
             steps_run = []\<rparr>, g))) \<and>
   (auths = (n1, a1) # others \<longrightarrow>
      resolve_authChain None pth op =
        \<lparr>chain = Inl (TypeError n1), op_after = op, rebuilt = True\<rparr>)"
proof (intro conjI impI)
  assume miss: "\<exists>na \<in> set auths. map_of m (fst na) = None"
  show r: "resolve_authChain (Some m) pth op =
        \<lparr>chain = Inl (TypeError ''connectMiddleware''), op_after = op, rebuilt = True\<rparr>"
    using resolve_missing [OF assms miss] .
  assume load: "setSwagger env (Some sw) g0 = (None, g) \<and> resourcesMap g = Some m
           \<and> req_swagger req = Some rs \<and> operation rs = Some op \<and> path rs = pth"
  with setSwagger_loaded [of env sw g0 g] obtain sw' where sw': "swagger g = Some sw'"
    by auto
  from load have same: "req\<lparr>req_swagger := Some (rs\<lparr>operation := Some op\<rparr>)\<rparr> = req"
    by (cases req, cases rs) simp
  from load sw' r same show "mwFunction env req g =
           (\<lparr>outcome = Threw (TypeError ''connectMiddleware'') req,
             resolved = Some \<lparr>chain = Inl (TypeError ''connectMiddleware''), op_after = op,
                               rebuilt = True\<rparr>,
             steps_run = []\<rparr>, g)"
    by (simp add: mwFunction_def ifAuthenticated_def Let_def)
next
  assume "auths = (n1, a1) # others"
  with assms show "resolve_authChain None pth op =
        \<lparr>chain = Inl (TypeError n1), op_after = op, rebuilt = True\<rparr>"
    by (simp add: resolve_authChain_def)
qed

theorem missing_resource_raises_TypeError_witness:
  "(case volos example_operation of Some v \<Rightarrow> authChain v | None \<Rightarrow> None) = None
   \<and> authorizations_of example_operation example_path
       = Some [(''oauth2'', \<lparr>scope = JStr ''write''\<rparr>)]
   \<and> map_of ([] :: (string \<times> string) list) ''oauth2'' = None
   \<and> setSwagger example_env (Some empty_swagger)
        \<lparr>swagger = None, resourcesMap = None, oauthSwagger = example_template\<rparr>
       = (None, \<lparr>swagger = Some empty_swagger, resourcesMap = Some [],
                 oauthSwagger = example_template\<rparr>)
   \<and> resolve_authChain (Some []) example_path example_operation
       = \<lparr>chain = Inl (TypeError ''connectMiddleware''), op_after = example_operation,
          rebuilt = True\<rparr>
   \<and> mwFunction example_env
        (example_request\<lparr>req_swagger :=
           Some \<lparr>operation = Some example_operation, path = example_path,
                 swaggerObject = Some empty_swagger\<rparr>\<rparr>)
        \<lparr>swagger = Some empty_swagger, resourcesMap = Some [], oauthSwagger = example_template\<rparr>
       = (\<lparr>outcome = Threw (TypeError ''connectMiddleware'')
             (example_request\<lparr>req_swagger :=
                Some \<lparr>operation = Some example_operation, path = example_path,
                      swaggerObject = Some empty_swagger\<rparr>\<rparr>),
           resolved = Some \<lparr>chain = Inl (TypeError ''connectMiddleware''),
                             op_after = example_operation, rebuilt = True\<rparr>,
           steps_run = []\<rparr>,
          \<lparr>swagger = Some empty_swagger, resourcesMap = Some [],
            oauthSwagger = example_template\<rparr>)
   \<and> resolve_authChain None example_path example_operation
       = \<lparr>chain = Inl (TypeError ''oauth2''), op_after = example_operation, rebuilt = True\<rparr>"
proof -
  have h1: "(case volos example_operation of Some v \<Rightarrow> authChain v | None \<Rightarrow> None) = None"
    by (simp add: example_operation_def)
  have h2: "authorizations_of example_operation example_path
              = Some [(''oauth2'', \<lparr>scope = JStr ''write''\<rparr>)]"
    by (simp add: authorizations_of_def example_operation_def)
  have h3: "\<exists>na \<in> set [(''oauth2'', \<lparr>scope = JStr ''write''\<rparr>)].
              map_of ([] :: (string \<times> string) list) (fst na) = None"
    by simp
  have h4: "setSwagger example_env (Some empty_swagger)
        \<lparr>swagger = None, resourcesMap = None, oauthSwagger = example_template\<rparr>
       = (None, \<lparr>swagger = Some empty_swagger, resourcesMap = Some [],
                 oauthSwagger = example_template\<rparr>)"
    by (simp add: setSwagger_def SERVICES_def get_services_def empty_swagger_def)
  have h5: "[(''oauth2'', \<lparr>scope = JStr ''write''\<rparr>)] = (''oauth2'', \<lparr>scope = JStr ''write''\<rparr>) # []"
    by simp
  note t = missing_resource_raises_TypeError [OF h1 h2,
      where m = "[]" and env = example_env and sw = empty_swagger
        and ?g0.0 = "\<lparr>swagger = None, resourcesMap = None, oauthSwagger = example_template\<rparr>"
        and g = "\<lparr>swagger = Some empty_swagger, resourcesMap = Some [],
                   oauthSwagger = example_template\<rparr>"
        and req = "example_request\<lparr>req_swagger :=
           Some \<lparr>operation = Some example_operation, path = example_path,
                 swaggerObject = Some empty_swagger\<rparr>\<rparr>"
        and rs = "\<lparr>operation = Some example_operation, path = example_path,
                 swaggerObject = Some empty_swagger\<rparr>"
        and ?n1.0 = "''oauth2''" and ?a1.0 = "\<lparr>scope = JStr ''write''\<rparr>" and others = "[]"]
  from h1 h2 h3 h4 h5 t show ?thesis
    by simp
qed

text \<open>
  C7 as stated fails: with the registry built and \<^verbatim>\<open>oauth2\<close> not in it, the error of
  the first resolution of \<^verbatim>\<open>createOrder\<close> is the TypeError for the property
  \<^verbatim>\<open>connectMiddleware\<close>, in which neither the resource nor the operation occurs.
\<close>

theorem missing_resource_error_names_nothing:
  "chain (resolve_authChain (Some []) example_path example_operation)
     = Inl (TypeError ''connectMiddleware'')
   \<and> \<not> error_names (TypeError ''connectMiddleware'') ''oauth2''
   \<and> \<not> error_names (TypeError ''connectMiddleware'') (operationId example_operation)"
  by (simp add: resolve_authChain_def authorizations_of_def example_operation_def
      sublist_Cons_right)


subsection \<open>A successful injection\<close>

lemma add_token_paths_template:
  "add_token_paths rn es (ps, t) = (None, ps', t') \<Longrightarrow>
   map_of (tmpl_paths t') k =
     (if k \<in> (\<lambda>np. CHR ''/'' # fst np) ` set es
      then map_option (AList.update OAUTH_PROP (JStr rn)) (map_of (tmpl_paths t) k)
      else map_of (tmpl_paths t) k)"
proof (induction es arbitrary: ps t)
  case Nil
  then show ?case by simp
next
  case (Cons x es)
  obtain name target where x: "x = (name, target)" by (cases x)
  from Cons.prems obtain item where item: "map_of (tmpl_paths t) (CHR ''/'' # name) = Some item"
    by (cases "map_of (tmpl_paths t) (CHR ''/'' # name)") (auto simp: x)
  let ?t1 = "t\<lparr>tmpl_paths := AList.update (CHR ''/'' # name)
               (AList.update OAUTH_PROP (JStr rn) item) (tmpl_paths t)\<rparr>"
  from Cons.prems item have
    "add_token_paths rn es (AList.update target (TemplateRef (CHR ''/'' # name)) ps, ?t1)
       = (None, ps', t')"
    by (simp add: x Let_def)
  from Cons.IH [OF this] item show ?case
    by (auto simp: x update_conv')
qed

lemma add_token_paths_frame:
  "add_token_paths rn es (ps, t) = (None, ps', t') \<Longrightarrow> target \<notin> snd ` set es \<Longrightarrow>
   map_of ps' target = map_of ps target"
proof (induction es arbitrary: ps t)
  case Nil
  then show ?case by simp
next
  case (Cons x es)
  obtain name tg where x: "x = (name, tg)" by (cases x)
  from Cons.prems(1) obtain item where item: "map_of (tmpl_paths t) (CHR ''/'' # name) = Some item"
    by (cases "map_of (tmpl_paths t) (CHR ''/'' # name)") (auto simp: x)
  from Cons.prems(1) item have
    "add_token_paths rn es
       (AList.update tg (TemplateRef (CHR ''/'' # name)) ps,
        t\<lparr>tmpl_paths := AList.update (CHR ''/'' # name)
               (AList.update OAUTH_PROP (JStr rn) item) (tmpl_paths t)\<rparr>)
       = (None, ps', t')"
    by (simp add: x Let_def)
  from Cons.IH [OF this] Cons.prems(2) show ?case
    by (simp add: x update_conv')
qed

lemma add_token_paths_prefix:
  assumes "add_token_paths rn (xs @ ys) st = (None, st')"
  shows "\<exists>st1. add_token_paths rn xs st = (None, st1) \<and> add_token_paths rn ys st1 = (None, st')"
proof -
  obtain r st1 where p: "add_token_paths rn xs st = (r, st1)"
    by (cases "add_token_paths rn xs st")
  with assms show ?thesis
    by (cases r) (simp_all add: add_token_paths_append)
qed

lemma add_token_paths_single:
  assumes "add_token_paths rn [(name, target)] (ps, t) = (None, ps', t')"
  shows "\<exists>item. map_of (tmpl_paths t) (CHR ''/'' # name) = Some item
         \<and> ps' = AList.update target (TemplateRef (CHR ''/'' # name)) ps
         \<and> t' = t\<lparr>tmpl_paths := AList.update (CHR ''/'' # name)
               (AList.update OAUTH_PROP (JStr rn) item) (tmpl_paths t)\<rparr>"
  using assms
  by (cases "map_of (tmpl_paths t) (CHR ''/'' # name)") (auto simp: Let_def)

lemma add_definitions_other:
  "k \<notin> fst ` set tds \<Longrightarrow> map_of (add_definitions tds ds) k = map_of ds k"
  by (induction tds arbitrary: ds) (auto simp: update_conv')

lemma add_definitions_in:
  "distinct (map fst tds) \<Longrightarrow> (k, v) \<in> set tds \<Longrightarrow> map_of (add_definitions tds ds) k = Some v"
proof (induction tds arbitrary: ds)
  case Nil
  then show ?case by simp
next
  case (Cons x tds)
  obtain k0 v0 where x: "x = (k0, v0)" by (cases x)
  show ?case
  proof (cases "(k, v) = (k0, v0)")
    case True
    with Cons.prems(1) x have "k \<notin> fst ` set tds" by auto
    from add_definitions_other [OF this] True show ?thesis
      by (simp add: x update_conv')
  next
    case False
    with Cons.prems x have "distinct (map fst tds)" "(k, v) \<in> set tds" by auto
    from Cons.IH [OF this] show ?thesis by (simp add: x)
  qed
qed

lemma injected_endpoint:
  assumes full: "add_token_paths rn (pre @ (name, target) # post) (ps, t) = (None, psF, tF)"
  shows "\<exists>item ps_mid t_mid.
           map_of (tmpl_paths t) (CHR ''/'' # name) = Some item
         \<and> add_token_paths rn (pre @ [(name, target)]) (ps, t) = (None, ps_mid, t_mid)
         \<and> map_of ps_mid target = Some (TemplateRef (CHR ''/'' # name))
         \<and> map_of (tmpl_paths t_mid) (CHR ''/'' # name)
             = Some (AList.update OAUTH_PROP (JStr rn) item)
         \<and> map_of (tmpl_paths tF) (CHR ''/'' # name)
             = Some (AList.update OAUTH_PROP (JStr rn) item)
         \<and> (target \<notin> snd ` set post \<longrightarrow>
              map_of psF target = Some (TemplateRef (CHR ''/'' # name)))"
proof -
  let ?key = "CHR ''/'' # name"
  from full have "add_token_paths rn ((pre @ [(name, target)]) @ post) (ps, t) = (None, psF, tF)"
    by simp
  from add_token_paths_prefix [OF this] obtain ps_mid t_mid
    where mid: "add_token_paths rn (pre @ [(name, target)]) (ps, t) = (None, ps_mid, t_mid)"
      and rest: "add_token_paths rn post (ps_mid, t_mid) = (None, psF, tF)"
    by auto
  from add_token_paths_prefix [OF mid] obtain ps1 t1
    where pre: "add_token_paths rn pre (ps, t) = (None, ps1, t1)"
      and one: "add_token_paths rn [(name, target)] (ps1, t1) = (None, ps_mid, t_mid)"
    by auto
  from add_token_paths_single [OF one] obtain item1
    where item1: "map_of (tmpl_paths t1) ?key = Some item1"
      and ps_mid: "ps_mid = AList.update target (TemplateRef ?key) ps1"
    by auto
  from add_token_paths_keys [OF pre]
  have "map fst (tmpl_paths t1) = map fst (tmpl_paths t)" by simp
  from known_cong [OF this, of ?key] item1
  obtain item where item: "map_of (tmpl_paths t) ?key = Some item"
    by (cases "map_of (tmpl_paths t) ?key") auto
  have at_mid: "map_of ps_mid target = Some (TemplateRef ?key)"
    by (simp add: ps_mid update_conv')
  have tag_mid: "map_of (tmpl_paths t_mid) ?key = Some (AList.update OAUTH_PROP (JStr rn) item)"
    using add_token_paths_template [OF mid, of ?key] item by simp
  have tag_end: "map_of (tmpl_paths tF) ?key = Some (AList.update OAUTH_PROP (JStr rn) item)"
    using add_token_paths_template [OF full, of ?key] item by simp
  have at_end: "target \<notin> snd ` set post \<longrightarrow> map_of psF target = Some (TemplateRef ?key)"
    using add_token_paths_frame [OF rest] at_mid by simp
  from item mid at_mid tag_mid tag_end at_end show ?thesis
    by blast
qed

text \<open>
  C5, as the code has it. Take an injection other than the no-op on the empty array,
  for which no collision is reported and every requested name has a template. It
  raises no error. Every requested endpoint's template item then carries the
  resource's name under \<^verbatim>\<open>x-volos-oauth-service\<close>. For every requested endpoint
  \<open>(name, target)\<close> that no later requested endpoint shares its target with,
  \<^verbatim>\<open>swagger.paths[target]\<close> is the template item of \<open>name\<close> (line 221 stores the
  template object itself); so a target requested by several names holds the item of
  the last of them. Every definition of the template is in \<^verbatim>\<open>swagger.definitions\<close>
  (the keys of an object are distinct), and the other definitions are what they were.
\<close>

theorem injection_places_templates_and_definitions:
  assumes nz: "\<not> length_is_zero tp"
      and known: "\<forall>np \<in> set (token_entries tp). map_of (tmpl_paths tmpl) (''/'' @ fst np) \<noteq> None"
      and nopath: "existingPaths tp (case paths sw of Some ps \<Rightarrow> ps | None \<Rightarrow> []) = []"
      and nodef: "existingDefinitions tmpl (case definitions sw of Some ds \<Rightarrow> ds | None \<Rightarrow> []) = []"
    shows "\<exists>sw' tmpl' psF dsF.
             importOAuth rn tp (sw, tmpl) = (None, sw', tmpl')
           \<and> paths sw' = Some psF \<and> definitions sw' = Some dsF
           \<and> (\<forall>pre name target post. token_entries tp = pre @ (name, target) # post \<longrightarrow>
                (\<exists>item.
                   map_of (tmpl_paths tmpl) (''/'' @ name) = Some item
                 \<and> map_of (tmpl_paths tmpl') (''/'' @ name)
                     = Some (AList.update OAUTH_PROP (JStr rn) item)
                 \<and> (target \<notin> snd ` set post \<longrightarrow>
                      map_of psF target = Some (TemplateRef (''/'' @ name)))))
           \<and> (distinct (map fst (tmpl_definitions tmpl)) \<longrightarrow>
                (\<forall>kv \<in> set (tmpl_definitions tmpl). map_of dsF (fst kv) = Some (snd kv)))
           \<and> (\<forall>k. k \<notin> fst ` set (tmpl_definitions tmpl) \<longrightarrow>
                map_of dsF k
                  = map_of (case definitions sw of Some ds \<Rightarrow> ds | None \<Rightarrow> []) k)"
proof -
  let ?ps0 = "case paths sw of Some ps \<Rightarrow> ps | None \<Rightarrow> []"
  let ?ds0 = "case definitions sw of Some ds \<Rightarrow> ds | None \<Rightarrow> []"
  from known have "\<forall>np \<in> set (token_entries tp).
                     map_of (tmpl_paths tmpl) (CHR ''/'' # fst np) \<noteq> None"
    by simp
  from add_token_paths_known [OF this, of rn ?ps0] obtain psF tmpl'
    where full: "add_token_paths rn (token_entries tp) (?ps0, tmpl) = (None, psF, tmpl')"
    by blast
  let ?dsF = "add_definitions (tmpl_definitions tmpl') ?ds0"
  let ?sw' = "sw\<lparr>paths := Some psF, definitions := Some ?dsF\<rparr>"
  from nz nopath nodef full
  have run: "importOAuth rn tp (sw, tmpl) = (None, ?sw', tmpl')"
    by (simp add: Let_def)
  from add_token_paths_keys [OF full]
  have same: "tmpl_definitions tmpl' = tmpl_definitions tmpl" by simp
  have endpoints: "\<exists>item.
                   map_of (tmpl_paths tmpl) (''/'' @ name) = Some item
                 \<and> map_of (tmpl_paths tmpl') (''/'' @ name)
                     = Some (AList.update OAUTH_PROP (JStr rn) item)
                 \<and> (target \<notin> snd ` set post \<longrightarrow>
                      map_of psF target = Some (TemplateRef (''/'' @ name)))"
    if split: "token_entries tp = pre @ (name, target) # post" for pre name target post
  proof -
    from full have "add_token_paths rn (pre @ (name, target) # post) (?ps0, tmpl)
                      = (None, psF, tmpl')"
      unfolding split .
    from injected_endpoint [OF this] show ?thesis
      by simp blast
  qed
  have copied: "distinct (map fst (tmpl_definitions tmpl)) \<longrightarrow>
                  (\<forall>kv \<in> set (tmpl_definitions tmpl). map_of ?dsF (fst kv) = Some (snd kv))"
    unfolding same by (auto intro: add_definitions_in)
  have kept: "\<forall>k. k \<notin> fst ` set (tmpl_definitions tmpl) \<longrightarrow> map_of ?dsF k = map_of ?ds0 k"
    unfolding same by (simp add: add_definitions_other)
  have "paths ?sw' = Some psF" "definitions ?sw' = Some ?dsF"
    by simp_all
  with run endpoints copied kept show ?thesis
    by blast
qed

theorem injection_places_templates_and_definitions_witness:
  "\<not> length_is_zero (TokenPathsObject [(''token'', ''/accesstoken''), (''authorize'', ''/authorize'')])
   \<and> existingPaths (TokenPathsObject [(''token'', ''/accesstoken''), (''authorize'', ''/authorize'')])
        (case paths shadowing_swagger of Some ps \<Rightarrow> ps | None \<Rightarrow> []) = []
   \<and> existingDefinitions example_template
        (case definitions shadowing_swagger of Some ds \<Rightarrow> ds | None \<Rightarrow> []) = []
   \<and> distinct (map fst (tmpl_definitions example_template))
   \<and> (\<exists>sw' tmpl' psF dsF.
         importOAuth ''oauth2''
           (TokenPathsObject [(''token'', ''/accesstoken''), (''authorize'', ''/authorize'')])
           (shadowing_swagger, example_template) = (None, sw', tmpl')
       \<and> paths sw' = Some psF \<and> definitions sw' = Some dsF
       \<and> map_of psF ''/accesstoken'' = Some (TemplateRef ''/token'')
       \<and> map_of (tmpl_paths tmpl') ''/token''
           = Some [(''post'', JObj []), (''x-volos-oauth-service'', JStr ''oauth2'')]
       \<and> map_of dsF ''TokenResponse'' = Some (JObj [(''type'', JStr ''object'')]))"
proof -
  let ?tp = "TokenPathsObject [(''token'', ''/accesstoken''), (''authorize'', ''/authorize'')]"
  have h1: "\<not> length_is_zero ?tp" by simp
  have h2: "\<forall>np \<in> set (token_entries ?tp).
              map_of (tmpl_paths example_template) (''/'' @ fst np) \<noteq> None"
    by (simp add: example_template_def)
  have h3: "existingPaths ?tp (case paths shadowing_swagger of Some ps \<Rightarrow> ps | None \<Rightarrow> []) = []"
    by (simp add: existingPaths_def shadowing_swagger_def)
  have h4: "existingDefinitions example_template
              (case definitions shadowing_swagger of Some ds \<Rightarrow> ds | None \<Rightarrow> []) = []"
    by (simp add: existingDefinitions_def shadowing_swagger_def)
  have h5: "distinct (map fst (tmpl_definitions example_template))"
    by (simp add: example_template_def)
  have e: "token_entries ?tp = [] @ (''token'', ''/accesstoken'') # [(''authorize'', ''/authorize'')]"
    by simp
  have far: "''/accesstoken'' \<notin> snd ` set [(''authorize'', ''/authorize'')]"
    by simp
  have item: "map_of (tmpl_paths example_template) (''/'' @ ''token'') = Some [(''post'', JObj [])]"
    by (simp add: example_template_def)
  have tagged: "AList.update OAUTH_PROP (JStr ''oauth2'') [(''post'', JObj [])]
                  = [(''post'', JObj []), (''x-volos-oauth-service'', JStr ''oauth2'')]"
    by (simp add: OAUTH_PROP_def)
  have d: "(''TokenResponse'', JObj [(''type'', JStr ''object'')])
             \<in> set (tmpl_definitions example_template)"
    by (simp add: example_template_def)
  from injection_places_templates_and_definitions [OF h1 h2 h3 h4, of "''oauth2''"] h5
  obtain sw' tmpl' psF dsF where
    r: "importOAuth ''oauth2'' ?tp (shadowing_swagger, example_template) = (None, sw', tmpl')"
       "paths sw' = Some psF" "definitions sw' = Some dsF"
    and ep: "\<And>pre name target post. token_entries ?tp = pre @ (name, target) # post \<Longrightarrow>
                (\<exists>item.
                   map_of (tmpl_paths example_template) (''/'' @ name) = Some item
                 \<and> map_of (tmpl_paths tmpl') (''/'' @ name)
                     = Some (AList.update OAUTH_PROP (JStr ''oauth2'') item)
                 \<and> (target \<notin> snd ` set post \<longrightarrow>
                      map_of psF target = Some (TemplateRef (''/'' @ name))))"
    and df: "\<forall>kv \<in> set (tmpl_definitions example_template). map_of dsF (fst kv) = Some (snd kv)"
    by blast
  from ep [OF e] item far tagged
  have "map_of psF ''/accesstoken'' = Some (TemplateRef ''/token'')"
       "map_of (tmpl_paths tmpl') ''/token''
           = Some [(''post'', JObj []), (''x-volos-oauth-service'', JStr ''oauth2'')]"
    by auto
  moreover from df d have "map_of dsF ''TokenResponse'' = Some (JObj [(''type'', JStr ''object'')])"
    by force
  ultimately show ?thesis
    using h1 h3 h4 h5 r by blast
qed

text \<open>
  C5 as stated fails: with the endpoints \<^verbatim>\<open>token\<close> and \<^verbatim>\<open>authorize\<close> both requested
  at \<^verbatim>\<open>/x\<close>, the injection raises no error and \<^verbatim>\<open>swagger.paths['/x']\<close> is the item of
  \<^verbatim>\<open>authorize\<close>: the template item of \<^verbatim>\<open>token\<close> is not at its target path.
\<close>

theorem shared_target_holds_last_template:
  "fst (importOAuth ''oauth2'' (TokenPathsObject [(''token'', ''/x''), (''authorize'', ''/x'')])
          (empty_swagger, example_template)) = None
   \<and> paths (fst (snd (importOAuth ''oauth2''
          (TokenPathsObject [(''token'', ''/x''), (''authorize'', ''/x'')])
          (empty_swagger, example_template))))
       = Some [(''/x'', TemplateRef ''/authorize'')]
   \<and> map_of [(''/x'', TemplateRef ''/authorize'')] ''/x'' \<noteq> Some (TemplateRef ''/token'')"
  by (simp add: empty_swagger_def example_template_def existingPaths_def
      existingDefinitions_def OAUTH_PROP_def Let_def)


text \<open>
  The checks of lines 205 and 211 report nothing on a document whose path-items and
  definitions are not strings.
\<close>

lemma existingPaths_no_strings:
  "\<forall>v \<in> set (map snd allPaths). \<forall>s. v \<noteq> Own (JStr s) \<Longrightarrow> existingPaths tp allPaths = []"
  by (fastforce simp: existingPaths_def filter_empty_conv)

lemma existingDefinitions_no_strings:
  "\<forall>v \<in> set (map snd allDefinitions). \<forall>s. v \<noteq> JStr s \<Longrightarrow>
   existingDefinitions tmpl allDefinitions = []"
  by (fastforce simp: existingDefinitions_def filter_empty_conv)

subsection \<open>The registry\<close>

lemma importOAuth_services:
  "importOAuth rn tp (sw, t) = (r, sw', t') \<Longrightarrow>
   x_a127_services sw' = x_a127_services sw \<and> x_volos_resources sw' = x_volos_resources sw"
  by (auto simp: Let_def split: if_splits prod.splits option.splits)

lemma put_service_a127:
  "x_volos_resources (put_service ''x-a127-services'' n d sw) = x_volos_resources sw"
  by (simp add: put_service_def)

lemma create_service_a127:
  assumes "create_service env ''x-a127-services'' n d (sw, t, svcs) = (r, sw', t', svcs')"
  shows "x_volos_resources sw' = x_volos_resources sw"
proof -
  obtain res d' where i: "instantiate env n d = (res, d')"
    by (cases "instantiate env n d")
  show ?thesis
  proof (cases res)
    case (Inl e)
    with assms i show ?thesis by (auto simp: put_service_a127)
  next
    case (Inr service)
    show ?thesis
    proof (cases "case options d' of Some opts \<Rightarrow> tokenPaths opts | None \<Rightarrow> None")
      case None
      with assms i Inr show ?thesis by (auto simp: put_service_a127)
    next
      case (Some tp)
      obtain r2 sw2 t2 where imp:
        "importOAuth n tp (put_service ''x-a127-services'' n d' sw, t) = (r2, sw2, t2)"
        by (cases "importOAuth n tp (put_service ''x-a127-services'' n d' sw, t)") auto
      from importOAuth_services [OF imp]
      have "x_volos_resources sw2 = x_volos_resources sw" by (simp add: put_service_a127)
      with assms i Inr Some imp show ?thesis
        by (cases r2) auto
    qed
  qed
qed

lemma each_service_a127:
  "each_service env ''x-a127-services'' decls (sw, t, svcs) = (r, sw', t', svcs') \<Longrightarrow>
   x_volos_resources sw' = x_volos_resources sw"
proof (induction decls arbitrary: sw t svcs)
  case Nil
  then show ?case by simp
next
  case (Cons x decls)
  obtain n d where x: "x = (n, d)" by (cases x)
  obtain r1 sw1 t1 s1 where c:
    "create_service env ''x-a127-services'' n d (sw, t, svcs) = (r1, sw1, t1, s1)"
    by (cases "create_service env ''x-a127-services'' n d (sw, t, svcs)") auto
  note keep = create_service_a127 [OF c]
  show ?case
  proof (cases r1)
    case None
    with Cons.prems c have "each_service env ''x-a127-services'' decls (sw1, t1, s1) = (r, sw', t', svcs')"
      by (simp add: x)
    from Cons.IH [OF this] keep show ?thesis by simp
  next
    case (Some e)
    with Cons.prems c keep show ?thesis by (simp add: x)
  qed
qed

lemma create_service_result:
  assumes "create_service env key n d (sw, t, svcs) = (None, sw', t', svcs')"
  shows "\<exists>r d'. instantiate env n d = (Inr r, d') \<and> svcs' = AList.update n r svcs"
proof -
  obtain res d' where i: "instantiate env n d = (res, d')"
    by (cases "instantiate env n d")
  show ?thesis
  proof (cases res)
    case (Inl e)
    with assms i show ?thesis by auto
  next
    case (Inr service)
    with assms i show ?thesis
      by (auto split: option.splits prod.splits)
  qed
qed

lemma each_service_other:
  "each_service env key decls (sw, t, svcs) = (None, sw', t', svcs') \<Longrightarrow>
   name \<notin> fst ` set decls \<Longrightarrow> map_of svcs' name = map_of svcs name"
proof (induction decls arbitrary: sw t svcs)
  case Nil
  then show ?case by simp
next
  case (Cons x decls)
  obtain n d where x: "x = (n, d)" by (cases x)
  obtain r1 sw1 t1 s1 where c: "create_service env key n d (sw, t, svcs) = (r1, sw1, t1, s1)"
    by (cases "create_service env key n d (sw, t, svcs)") auto
  with Cons.prems(1) have r1: "r1 = None"
    by (cases r1) (simp_all add: x)
  with Cons.prems(1) c have rest: "each_service env key decls (sw1, t1, s1) = (None, sw', t', svcs')"
    by (simp add: x)
  from create_service_result [OF c [unfolded r1]] obtain r where "s1 = AList.update n r svcs"
    by blast
  with Cons.prems(2) x have "map_of s1 name = map_of svcs name"
    by (simp add: update_conv')
  with Cons.IH [OF rest] Cons.prems(2) show ?case by simp
qed

lemma each_service_declared:
  "each_service env key decls (sw, t, svcs) = (None, sw', t', svcs') \<Longrightarrow>
   distinct (map fst decls) \<Longrightarrow> map_of decls name = Some d \<Longrightarrow>
   \<exists>r d'. instantiate env name d = (Inr r, d') \<and> map_of svcs' name = Some r"
proof (induction decls arbitrary: sw t svcs)
  case Nil
  then show ?case by simp
next
  case (Cons x decls)
  obtain n dn where x: "x = (n, dn)" by (cases x)
  obtain r1 sw1 t1 s1 where c: "create_service env key n dn (sw, t, svcs) = (r1, sw1, t1, s1)"
    by (cases "create_service env key n dn (sw, t, svcs)") auto
  with Cons.prems(1) have r1: "r1 = None"
    by (cases r1) (simp_all add: x)
  with Cons.prems(1) c have rest: "each_service env key decls (sw1, t1, s1) = (None, sw', t', svcs')"
    by (simp add: x)
  show ?case
  proof (cases "n = name")
    case True
    with Cons.prems(3) x have d: "dn = d" by simp
    from Cons.prems(2) x True have "name \<notin> fst ` set decls" by auto
    from each_service_other [OF rest this] have keep: "map_of svcs' name = map_of s1 name" .
    from create_service_result [OF c [unfolded r1]] obtain r d'
      where "instantiate env n dn = (Inr r, d')" "s1 = AList.update n r svcs"
      by blast
    with keep True d show ?thesis
      by (simp add: update_conv')
  next
    case False
    with Cons.prems x have "distinct (map fst decls)" "map_of decls name = Some d"
      by auto
    from Cons.IH [OF rest this] show ?thesis .
  qed
qed


lemma each_key_SERVICES:
  assumes "each_key env SERVICES (sw, t, []) = (None, sw', t', reg)"
  shows "\<exists>sw1 t1 s1.
           (case x_a127_services sw of
              None \<Rightarrow> (sw1, t1, s1) = (sw, t, [])
            | Some da \<Rightarrow> each_service env ''x-a127-services'' da (sw, t, []) = (None, sw1, t1, s1))
         \<and> x_volos_resources sw1 = x_volos_resources sw
         \<and> (case x_volos_resources sw of
              None \<Rightarrow> (sw', t', reg) = (sw1, t1, s1)
            | Some dv \<Rightarrow> each_service env ''x-volos-resources'' dv (sw1, t1, s1) = (None, sw', t', reg))"
proof -
  have second: "\<exists>sw1' t1' s1'. (sw1', t1', s1') = (sw1, t1, s1) \<and>
      (case x_volos_resources sw1 of
         None \<Rightarrow> (sw', t', reg) = (sw1, t1, s1)
       | Some dv \<Rightarrow> each_service env ''x-volos-resources'' dv (sw1, t1, s1) = (None, sw', t', reg))"
    if "each_key env [''x-volos-resources''] (sw1, t1, s1) = (None, sw', t', reg)"
    for sw1 t1 s1
  proof (cases "x_volos_resources sw1")
    case None
    with that show ?thesis by (simp add: get_services_def)
  next
    case (Some dv)
    obtain r2 st2 where e: "each_service env ''x-volos-resources'' dv (sw1, t1, s1) = (r2, st2)"
      by (cases "each_service env ''x-volos-resources'' dv (sw1, t1, s1)")
    with that Some show ?thesis
      by (cases r2) (simp_all add: get_services_def)
  qed
  show ?thesis
  proof (cases "x_a127_services sw")
    case None
    with assms have "each_key env [''x-volos-resources''] (sw, t, []) = (None, sw', t', reg)"
      by (simp add: SERVICES_def get_services_def)
    from second [OF this] None show ?thesis by simp
  next
    case (Some da)
    obtain r1 sw1 t1 s1 where e: "each_service env ''x-a127-services'' da (sw, t, []) = (r1, sw1, t1, s1)"
      by (cases "each_service env ''x-a127-services'' da (sw, t, [])") auto
    from assms Some e have r1: "r1 = None"
      by (cases r1) (simp_all add: SERVICES_def get_services_def)
    with assms Some e have "each_key env [''x-volos-resources''] (sw1, t1, s1) = (None, sw', t', reg)"
      by (simp add: SERVICES_def get_services_def)
    from second [OF this] each_service_a127 [OF e] Some e r1 show ?thesis
      by auto
  qed
qed

lemma create_service_plain:
  assumes "instantiate env n d = (Inr r, d')"
      and "(case options d' of Some opts \<Rightarrow> tokenPaths opts | None \<Rightarrow> None) = None"
    shows "create_service env key n d (sw, t, svcs)
             = (None, put_service key n d' sw, t, AList.update n r svcs)"
  using assms by simp

lemma each_service_plain:
  "\<forall>nd \<in> set decls. \<exists>r d'. instantiate env (fst nd) (snd nd) = (Inr r, d')
       \<and> (case options d' of Some opts \<Rightarrow> tokenPaths opts | None \<Rightarrow> None) = None \<Longrightarrow>
   \<exists>sw' svcs'. each_service env key decls (sw, t, svcs) = (None, sw', t, svcs')"
proof (induction decls arbitrary: sw svcs)
  case Nil
  then show ?case by simp
next
  case (Cons x decls)
  obtain n d where x: "x = (n, d)" by (cases x)
  from Cons.prems x obtain r d' where i: "instantiate env n d = (Inr r, d')"
      and np: "(case options d' of Some opts \<Rightarrow> tokenPaths opts | None \<Rightarrow> None) = None"
    by auto
  from Cons.prems have rest: "\<forall>nd \<in> set decls. \<exists>r d'. instantiate env (fst nd) (snd nd) = (Inr r, d')
       \<and> (case options d' of Some opts \<Rightarrow> tokenPaths opts | None \<Rightarrow> None) = None"
    by simp
  from Cons.IH [OF rest, of "put_service key n d' sw" "AList.update n r svcs"]
  show ?case
    by (simp add: x create_service_plain [OF i np] del: create_service.simps)
qed

lemma createResources_plain:
  assumes "\<forall>key decls. get_services key sw = Some decls \<longrightarrow>
             (\<forall>nd \<in> set decls. \<exists>r d'. instantiate env (fst nd) (snd nd) = (Inr r, d')
                \<and> (case options d' of Some opts \<Rightarrow> tokenPaths opts | None \<Rightarrow> None) = None)"
  shows "\<exists>registry sw'. createResources env (sw, tmpl) = (Inr registry, sw', tmpl)"
proof -
  have first: "\<exists>sw1 s1. x_volos_resources sw1 = x_volos_resources sw \<and>
      each_key env SERVICES (sw, tmpl, []) = each_key env [''x-volos-resources''] (sw1, tmpl, s1)"
  proof (cases "x_a127_services sw")
    case None
    then show ?thesis
      by (auto simp: SERVICES_def get_services_def)
  next
    case (Some da)
    then have "get_services ''x-a127-services'' sw = Some da"
      by (simp add: get_services_def)
    with assms have "\<forall>nd \<in> set da. \<exists>r d'. instantiate env (fst nd) (snd nd) = (Inr r, d')
                \<and> (case options d' of Some opts \<Rightarrow> tokenPaths opts | None \<Rightarrow> None) = None"
      by blast
    from each_service_plain [OF this, of "''x-a127-services''" sw tmpl "[]"] obtain sw1 s1
      where e: "each_service env ''x-a127-services'' da (sw, tmpl, []) = (None, sw1, tmpl, s1)"
      by blast
    from each_service_a127 [OF e] have "x_volos_resources sw1 = x_volos_resources sw" .
    moreover from Some e
    have "each_key env SERVICES (sw, tmpl, []) = each_key env [''x-volos-resources''] (sw1, tmpl, s1)"
      by (simp add: SERVICES_def get_services_def)
    ultimately show ?thesis by blast
  qed
  then obtain sw1 s1 where v: "x_volos_resources sw1 = x_volos_resources sw"
    and k: "each_key env SERVICES (sw, tmpl, []) = each_key env [''x-volos-resources''] (sw1, tmpl, s1)"
    by blast
  have "\<exists>sw' registry. each_key env [''x-volos-resources''] (sw1, tmpl, s1) = (None, sw', tmpl, registry)"
  proof (cases "x_volos_resources sw")
    case None
    with v show ?thesis by (simp add: get_services_def)
  next
    case (Some dv)
    then have "get_services ''x-volos-resources'' sw = Some dv"
      by (simp add: get_services_def)
    with assms have "\<forall>nd \<in> set dv. \<exists>r d'. instantiate env (fst nd) (snd nd) = (Inr r, d')
                \<and> (case options d' of Some opts \<Rightarrow> tokenPaths opts | None \<Rightarrow> None) = None"
      by blast
    from each_service_plain [OF this, of "''x-volos-resources''" sw1 tmpl s1] obtain sw2 s2
      where "each_service env ''x-volos-resources'' dv (sw1, tmpl, s1) = (None, sw2, tmpl, s2)"
      by blast
    with Some v show ?thesis
      by (simp add: get_services_def)
  qed
  with k show ?thesis by auto
qed

text \<open>
  C6, as the code has it. The two keys are processed in the order of \<open>SERVICES\<close> and
  line 190 assigns without looking at what is there, so the outcome is fixed. When the
  registry is built and a name is declared under both keys: the declaration under
  \<^verbatim>\<open>x-a127-services\<close> was instantiated and its resource registered under the name
  when that key was done; the declaration under \<^verbatim>\<open>x-volos-resources\<close> was
  instantiated too, and the registry returned holds its resource under the name. A name
  declared under \<^verbatim>\<open>x-volos-resources\<close> holds the resource of that declaration; a name
  declared under \<^verbatim>\<open>x-a127-services\<close> only holds the resource of that one. When every
  declaration instantiates and asks for no token paths, the registry is built, with
  duplicates or without.
\<close>

theorem registry_last_declaration_wins:
  "(createResources env (sw, tmpl) = (Inr registry, sw', tmpl') \<longrightarrow>
      (\<forall>da dv a v. x_a127_services sw = Some da \<and> distinct (map fst da)
           \<and> map_of da name = Some a
           \<and> x_volos_resources sw = Some dv \<and> distinct (map fst dv)
           \<and> map_of dv name = Some v \<longrightarrow>
         (\<exists>ra a' rv v' sw1 t1 s1.
             instantiate env name a = (Inr ra, a')
           \<and> each_service env ''x-a127-services'' da (sw, tmpl, []) = (None, sw1, t1, s1)
           \<and> map_of s1 name = Some ra
           \<and> instantiate env name v = (Inr rv, v')
           \<and> each_service env ''x-volos-resources'' dv (sw1, t1, s1)
               = (None, sw', tmpl', registry)
           \<and> map_of registry name = Some rv))
    \<and> (\<forall>decls d. x_volos_resources sw = Some decls \<and> distinct (map fst decls)
             \<and> map_of decls name = Some d \<longrightarrow>
           (\<exists>r d'. instantiate env name d = (Inr r, d') \<and> map_of registry name = Some r))
    \<and> (\<forall>decls d. x_a127_services sw = Some decls \<and> distinct (map fst decls)
             \<and> map_of decls name = Some d
             \<and> (\<forall>dv. x_volos_resources sw = Some dv \<longrightarrow> name \<notin> fst ` set dv) \<longrightarrow>
           (\<exists>r d'. instantiate env name d = (Inr r, d') \<and> map_of registry name = Some r)))
   \<and> ((\<forall>key decls. get_services key sw = Some decls \<longrightarrow>
          (\<forall>nd \<in> set decls. \<exists>r d'. instantiate env (fst nd) (snd nd) = (Inr r, d')
             \<and> (case options d' of Some opts \<Rightarrow> tokenPaths opts | None \<Rightarrow> None) = None)) \<longrightarrow>
       (\<exists>registry sw'. createResources env (sw, tmpl) = (Inr registry, sw', tmpl)))"
proof (intro conjI impI)
  assume ok: "createResources env (sw, tmpl) = (Inr registry, sw', tmpl')"
  obtain r0 sw0 t0 s0 where k: "each_key env SERVICES (sw, tmpl, []) = (r0, sw0, t0, s0)"
    by (cases "each_key env SERVICES (sw, tmpl, [])") auto
  with ok have "r0 = None" "sw0 = sw'" "t0 = tmpl'" "s0 = registry"
    by (cases r0; simp)+
  with k have "each_key env SERVICES (sw, tmpl, []) = (None, sw', tmpl', registry)"
    by simp
  from each_key_SERVICES [OF this] obtain sw1 t1 s1
    where first: "case x_a127_services sw of
              None \<Rightarrow> (sw1, t1, s1) = (sw, tmpl, [])
            | Some da \<Rightarrow> each_service env ''x-a127-services'' da (sw, tmpl, []) = (None, sw1, t1, s1)"
      and second: "case x_volos_resources sw of
              None \<Rightarrow> (sw', tmpl', registry) = (sw1, t1, s1)
            | Some dv \<Rightarrow> each_service env ''x-volos-resources'' dv (sw1, t1, s1)
                          = (None, sw', tmpl', registry)"
    by blast
  show "\<forall>da dv a v. x_a127_services sw = Some da \<and> distinct (map fst da)
           \<and> map_of da name = Some a
           \<and> x_volos_resources sw = Some dv \<and> distinct (map fst dv)
           \<and> map_of dv name = Some v \<longrightarrow>
         (\<exists>ra a' rv v' sw1 t1 s1.
             instantiate env name a = (Inr ra, a')
           \<and> each_service env ''x-a127-services'' da (sw, tmpl, []) = (None, sw1, t1, s1)
           \<and> map_of s1 name = Some ra
           \<and> instantiate env name v = (Inr rv, v')
           \<and> each_service env ''x-volos-resources'' dv (sw1, t1, s1)
               = (None, sw', tmpl', registry)
           \<and> map_of registry name = Some rv)"
  proof (intro allI impI)
    fix da dv a v
    assume h: "x_a127_services sw = Some da \<and> distinct (map fst da)
           \<and> map_of da name = Some a
           \<and> x_volos_resources sw = Some dv \<and> distinct (map fst dv)
           \<and> map_of dv name = Some v"
    from first h
    have e1: "each_service env ''x-a127-services'' da (sw, tmpl, []) = (None, sw1, t1, s1)"
      by simp
    from second h
    have e2: "each_service env ''x-volos-resources'' dv (sw1, t1, s1) = (None, sw', tmpl', registry)"
      by simp
    from h have da: "distinct (map fst da)" "map_of da name = Some a"
      and dv: "distinct (map fst dv)" "map_of dv name = Some v"
      by simp_all
    from each_service_declared [OF e1 da] obtain ra a'
      where ra: "instantiate env name a = (Inr ra, a')" "map_of s1 name = Some ra"
      by blast
    from each_service_declared [OF e2 dv] obtain rv v'
      where rv: "instantiate env name v = (Inr rv, v')" "map_of registry name = Some rv"
      by blast
    from ra rv e1 e2 show "\<exists>ra a' rv v' sw1 t1 s1.
             instantiate env name a = (Inr ra, a')
           \<and> each_service env ''x-a127-services'' da (sw, tmpl, []) = (None, sw1, t1, s1)
           \<and> map_of s1 name = Some ra
           \<and> instantiate env name v = (Inr rv, v')
           \<and> each_service env ''x-volos-resources'' dv (sw1, t1, s1)
               = (None, sw', tmpl', registry)
           \<and> map_of registry name = Some rv"
      by blast
  qed
  show "\<forall>decls d. x_volos_resources sw = Some decls \<and> distinct (map fst decls)
             \<and> map_of decls name = Some d \<longrightarrow>
           (\<exists>r d'. instantiate env name d = (Inr r, d') \<and> map_of registry name = Some r)"
  proof (intro allI impI)
    fix decls d
    assume h: "x_volos_resources sw = Some decls \<and> distinct (map fst decls)
             \<and> map_of decls name = Some d"
    with second
    have e: "each_service env ''x-volos-resources'' decls (sw1, t1, s1)
               = (None, sw', tmpl', registry)"
      by simp
    from h have "distinct (map fst decls)" "map_of decls name = Some d" by simp_all
    from each_service_declared [OF e this]
    show "\<exists>r d'. instantiate env name d = (Inr r, d') \<and> map_of registry name = Some r" .
  qed
  show "\<forall>decls d. x_a127_services sw = Some decls \<and> distinct (map fst decls)
             \<and> map_of decls name = Some d
             \<and> (\<forall>dv. x_volos_resources sw = Some dv \<longrightarrow> name \<notin> fst ` set dv) \<longrightarrow>
           (\<exists>r d'. instantiate env name d = (Inr r, d') \<and> map_of registry name = Some r)"
  proof (intro allI impI)
    fix decls d
    assume h: "x_a127_services sw = Some decls \<and> distinct (map fst decls)
             \<and> map_of decls name = Some d
             \<and> (\<forall>dv. x_volos_resources sw = Some dv \<longrightarrow> name \<notin> fst ` set dv)"
    with first
    have e: "each_service env ''x-a127-services'' decls (sw, tmpl, []) = (None, sw1, t1, s1)"
      by simp
    from h have "distinct (map fst decls)" "map_of decls name = Some d" by simp_all
    from each_service_declared [OF e this] obtain r d'
      where r: "instantiate env name d = (Inr r, d')" "map_of s1 name = Some r"
      by blast
    have "map_of registry name = map_of s1 name"
    proof (cases "x_volos_resources sw")
      case None
      with second show ?thesis by simp
    next
      case (Some dv)
      with second have e2: "each_service env ''x-volos-resources'' dv (sw1, t1, s1)
                          = (None, sw', tmpl', registry)"
        by simp
      from h Some have "name \<notin> fst ` set dv" by simp
      from each_service_other [OF e2 this] show ?thesis .
    qed
    with r show "\<exists>r d'. instantiate env name d = (Inr r, d') \<and> map_of registry name = Some r"
      by simp
  qed
next
  assume "\<forall>key decls. get_services key sw = Some decls \<longrightarrow>
          (\<forall>nd \<in> set decls. \<exists>r d'. instantiate env (fst nd) (snd nd) = (Inr r, d')
             \<and> (case options d' of Some opts \<Rightarrow> tokenPaths opts | None \<Rightarrow> None) = None)"
  from createResources_plain [OF this]
  show "\<exists>registry sw'. createResources env (sw, tmpl) = (Inr registry, sw', tmpl)" .
qed

theorem registry_last_declaration_wins_witness:
  "createResources example_env (shadowing_swagger, example_template)
     = (Inr [(''oauth2'', ''volos-oauth-redis'')], shadowing_swagger, example_template)
   \<and> map_of [(''oauth2'', \<lparr>provider = ''volos-oauth-apigee'',
                 options = Some \<lparr>passwordCheck = JUndefined, tokenPaths = None\<rparr>\<rparr>)] ''oauth2''
       = Some \<lparr>provider = ''volos-oauth-apigee'',
                 options = Some \<lparr>passwordCheck = JUndefined, tokenPaths = None\<rparr>\<rparr>
   \<and> map_of [(''oauth2'', \<lparr>provider = ''volos-oauth-redis'',
                 options = Some \<lparr>passwordCheck = JUndefined, tokenPaths = None\<rparr>\<rparr>)] ''oauth2''
       = Some \<lparr>provider = ''volos-oauth-redis'',
                 options = Some \<lparr>passwordCheck = JUndefined, tokenPaths = None\<rparr>\<rparr>
   \<and> (\<exists>ra a' rv v' sw1 t1 s1.
          instantiate example_env ''oauth2''
            \<lparr>provider = ''volos-oauth-apigee'',
             options = Some \<lparr>passwordCheck = JUndefined, tokenPaths = None\<rparr>\<rparr> = (Inr ra, a')
        \<and> each_service example_env ''x-a127-services''
            [(''oauth2'', \<lparr>provider = ''volos-oauth-apigee'',
                 options = Some \<lparr>passwordCheck = JUndefined, tokenPaths = None\<rparr>\<rparr>)]
            (shadowing_swagger, example_template, []) = (None, sw1, t1, s1)
        \<and> map_of s1 ''oauth2'' = Some ra
        \<and> instantiate example_env ''oauth2''
            \<lparr>provider = ''volos-oauth-redis'',
             options = Some \<lparr>passwordCheck = JUndefined, tokenPaths = None\<rparr>\<rparr> = (Inr rv, v')
        \<and> map_of [(''oauth2'', ''volos-oauth-redis'')] ''oauth2'' = Some rv)
   \<and> (\<exists>registry sw'. createResources example_env (shadowing_swagger, example_template)
          = (Inr registry, sw', example_template))"
proof -
  let ?a = "\<lparr>provider = ''volos-oauth-apigee'',
             options = Some \<lparr>passwordCheck = JUndefined, tokenPaths = None\<rparr>\<rparr>"
  let ?v = "\<lparr>provider = ''volos-oauth-redis'',
             options = Some \<lparr>passwordCheck = JUndefined, tokenPaths = None\<rparr>\<rparr>"
  have h1: "createResources example_env (shadowing_swagger, example_template)
     = (Inr [(''oauth2'', ''volos-oauth-redis'')], shadowing_swagger, example_template)"
    by (simp add: SERVICES_def get_services_def put_service_def instantiate_def
        shadowing_swagger_def example_env_def)
  have h2: "x_a127_services shadowing_swagger = Some [(''oauth2'', ?a)]
            \<and> distinct (map fst [(''oauth2'', ?a)])
            \<and> map_of [(''oauth2'', ?a)] ''oauth2'' = Some ?a
            \<and> x_volos_resources shadowing_swagger = Some [(''oauth2'', ?v)]
            \<and> distinct (map fst [(''oauth2'', ?v)])
            \<and> map_of [(''oauth2'', ?v)] ''oauth2'' = Some ?v"
    by (simp add: shadowing_swagger_def)
  have h3: "\<forall>key decls. get_services key shadowing_swagger = Some decls \<longrightarrow>
          (\<forall>nd \<in> set decls. \<exists>r d'. instantiate example_env (fst nd) (snd nd) = (Inr r, d')
             \<and> (case options d' of Some opts \<Rightarrow> tokenPaths opts | None \<Rightarrow> None) = None)"
    by (auto simp: get_services_def shadowing_swagger_def instantiate_def example_env_def
        split: if_splits)
  note t = registry_last_declaration_wins [where env = example_env and sw = shadowing_swagger
      and tmpl = example_template and registry = "[(''oauth2'', ''volos-oauth-redis'')]"
      and sw' = shadowing_swagger and tmpl' = example_template and name = "''oauth2''"]
  from t h1 h2 have both: "\<exists>ra a' rv v' sw1 t1 s1.
          instantiate example_env ''oauth2'' ?a = (Inr ra, a')
        \<and> each_service example_env ''x-a127-services'' [(''oauth2'', ?a)]
            (shadowing_swagger, example_template, []) = (None, sw1, t1, s1)
        \<and> map_of s1 ''oauth2'' = Some ra
        \<and> instantiate example_env ''oauth2'' ?v = (Inr rv, v')
        \<and> map_of [(''oauth2'', ''volos-oauth-redis'')] ''oauth2'' = Some rv"
    by blast
  from t h3 have built: "\<exists>registry sw'. createResources example_env (shadowing_swagger, example_template)
          = (Inr registry, sw', example_template)"
    by blast
  from h1 h2 both built show ?thesis
    by blast
qed

text \<open>
  C6 as stated fails: with \<^verbatim>\<open>oauth2\<close> declared under both keys, no error is raised and
  the registry holds the resource of the \<^verbatim>\<open>x-volos-resources\<close> declaration, not the one
  created first from \<^verbatim>\<open>x-a127-services\<close>.
\<close>

theorem lower_priority_declaration_shadows:
  "fst (createResources example_env (shadowing_swagger, example_template))
     = Inr [(''oauth2'', ''volos-oauth-redis'')]
   \<and> fst (instantiate example_env ''oauth2''
            \<lparr>provider = ''volos-oauth-apigee'',
             options = Some \<lparr>passwordCheck = JUndefined, tokenPaths = None\<rparr>\<rparr>)
     = Inr ''volos-oauth-apigee''"
  by (simp add: SERVICES_def get_services_def put_service_def instantiate_def
      shadowing_swagger_def example_env_def)


end
